theory Spec2Isabelle
  imports Main "HOL-Library.Sublist"
begin

section \<open>Python values, exceptions and string operations\<close>

text \<open>
  The two programs of the repository, \<^verbatim>\<open>Agendator.py\<close> (continuous loop) and
  \<^verbatim>\<open>AgendatorActions.py\<close> (single run), are embedded as HOL functions.
  Text is a \<^typ>\<open>string\<close>: a list of characters with code points 0 to 255, so the
  model speaks about Latin-1 text. Exceptions are values of \<open>exn\<close>, and a function
  that may raise returns \<open>exn + 'a\<close> with \<open>Inl\<close> for the exception.
\<close>

datatype exn =
    RequestException
  | KeyError
  | IndexError
  | JSONDecodeError
  | AttributeError
  | TypeError
  | ValueError
  | OverflowError
  | UnboundLocalError
  | OtherError

text \<open>What \<^verbatim>\<open>json.loads\<close> and \<^verbatim>\<open>response.json()\<close> produce. A dict is an
  association list with distinct keys in insertion order; a float keeps its lexeme.\<close>

datatype json =
    JNull
  | JBool bool
  | JInt int
  | JFloat string
  | JStr string
  | JArr "json list"
  | JObj "(string \<times> json) list"

text \<open>\<^verbatim>\<open>str.isspace\<close> on the characters below U+0100, which is what
  \<^verbatim>\<open>str.strip()\<close> removes: TAB, LF, VT, FF, CR, FS, GS, RS, US, SPACE, NEL, NBSP.\<close>

definition py_isspace :: "char \<Rightarrow> bool" where
  "py_isspace c = (c \<in> set [CHR 0x09, CHR 0x0A, CHR 0x0B, CHR 0x0C, CHR 0x0D,
                            CHR 0x1C, CHR 0x1D, CHR 0x1E, CHR 0x1F, CHR 0x20,
                            CHR 0x85, CHR 0xA0])"

definition py_strip :: "string \<Rightarrow> string" where
  "py_strip s = rev (dropWhile py_isspace (rev (dropWhile py_isspace s)))"

definition py_startswith :: "string \<Rightarrow> string \<Rightarrow> bool" where
  "py_startswith s p = (take (length p) s = p)"

definition py_endswith :: "string \<Rightarrow> string \<Rightarrow> bool" where
  "py_endswith s p = (length p \<le> length s \<and> drop (length s - length p) s = p)"

text \<open>\<^verbatim>\<open>s.replace(old, new)\<close> for a non-empty \<open>old\<close>: the occurrences are found from
  the left and do not overlap.\<close>

fun py_replace :: "string \<Rightarrow> string \<Rightarrow> string \<Rightarrow> string" where
  "py_replace old new [] = []"
| "py_replace old new (c # cs) =
     (if old \<noteq> [] \<and> take (length old) (c # cs) = old
      then new @ py_replace old new (drop (length old - 1) cs)
      else c # py_replace old new cs)"

section \<open>Prompt Builder\<close>

text \<open>A normalised message as \<^verbatim>\<open>fetch_emails\<close> builds it. \<^verbatim>\<open>msg.get("From")\<close> and
  \<^verbatim>\<open>msg.get("To")\<close> are \<^verbatim>\<open>None\<close> when the header is missing.\<close>

record email_data =
  from_hdr :: "string option"
  to_hdr :: "string option"
  subject :: string
  body :: string

text \<open>\<^verbatim>\<open>str(x)\<close> for a value that is a string or \<^verbatim>\<open>None\<close>.\<close>

fun py_str :: "string option \<Rightarrow> string" where
  "py_str None = ''None''"
| "py_str (Some s) = s"

text \<open>The day \<^verbatim>\<open>datetime.now()\<close> gives when the module is loaded.\<close>

record date =
  d_year :: nat
  d_month :: nat
  d_day :: nat

definition digit_char :: "nat \<Rightarrow> char" where
  "digit_char n = char_of (48 + n mod 10)"

fun zero_pad :: "nat \<Rightarrow> nat \<Rightarrow> string" where
  "zero_pad 0 n = (if n = 0 then [] else zero_pad 0 (n div 10) @ [digit_char n])"
| "zero_pad (Suc w) n = zero_pad w (n div 10) @ [digit_char n]"

text \<open>\<^verbatim>\<open>strftime('%Y-%m-%d')\<close>.\<close>

definition strftime_ymd :: "date \<Rightarrow> string" where
  "strftime_ymd d = zero_pad 4 (d_year d) @ ''-'' @ zero_pad 2 (d_month d) @ ''-'' @ zero_pad 2 (d_day d)"

text \<open>The literal pieces of \<^verbatim>\<open>GEMINI_PROMPT_TEMPLATE\<close>; it is the same text in both
  programs. The date is concatenated into the template when the module is loaded,
  before \<^verbatim>\<open>.format\<close> ever sees it.\<close>

definition template_intro :: string where
  \<open>template_intro =
     ''Abaixo est'' @ [CHR 0xE1] @ '' o conte'' @ [CHR 0xFA] @ ''do de um e-mail. Verifique se h'' @ [CHR 0xE1] @
     '' poss'' @ [CHR 0xED] @ ''veis reuni'' @ [CHR 0xF5] @ ''es, eventos, tarefas, entregas ou trabalhos que possam ser agendados. '' @
     ''Somente considere se houver um hor'' @ [CHR 0xE1] @ ''rio e/ou dia especificado.'' @
     ''Se houver, responda SOMENTE com um objeto JSON contendo uma lista de eventos. '' @
     ''Cada evento deve ter 'start_datetime' (formato 'YYYY-MM-DDTHH:MM:SS-03:00') e 'summary' (descri'' @
     [CHR 0xE7, CHR 0xE3] @ ''o). '' @
     ''Se n'' @ [CHR 0xE3] @ ''o houver eventos, responda com um JSON com uma lista vazia: ''\<close>

definition template_head :: string where
  \<open>template_head =
     template_intro @ ''{{"eventos": []}}. Considere a data de hoje como: ''\<close>

definition template_tail :: string where
  \<open>template_tail =
     ''. Segue o e-mail:'' @ [CHR 0x0A, CHR 0x0A] @
     ''De: {de}'' @ [CHR 0x0A] @ ''Para: {para}'' @ [CHR 0x0A] @ ''Assunto: {assunto}'' @ [CHR 0x0A, CHR 0x0A] @
     ''Conte'' @ [CHR 0xFA] @ ''do:'' @ [CHR 0x0A] @ ''{conteudo}''\<close>

definition GEMINI_PROMPT_TEMPLATE :: "date \<Rightarrow> string" where
  "GEMINI_PROMPT_TEMPLATE today = template_head @ strftime_ymd today @ template_tail"

text \<open>\<^verbatim>\<open>template.format(**kw)\<close> for keyword fields. A doubled brace is a literal brace, a
  lone closing brace and an unclosed field are a \<^verbatim>\<open>ValueError\<close>, a field whose name is
  not among the keywords is a \<^verbatim>\<open>KeyError\<close>. The substituted value is copied and never
  scanned again. Conversions, format specifications, attribute and index access inside
  a field, and empty or numeric field names (positional arguments) are not modelled:
  the template uses none.\<close>

definition emit :: "string \<Rightarrow> exn + string \<Rightarrow> exn + string" where
  "emit s r = (case r of Inl e \<Rightarrow> Inl e | Inr t \<Rightarrow> Inr (s @ t))"

function py_format :: "string \<Rightarrow> (string \<times> string) list \<Rightarrow> exn + string" where
  "py_format [] kw = Inr []"
| "py_format (c # cs) kw =
     (if c = CHR ''{'' then
        (case cs of
           [] \<Rightarrow> Inl ValueError
         | d # ds \<Rightarrow>
             if d = CHR ''{'' then emit ''{'' (py_format ds kw)
             else if dropWhile (\<lambda>x. x \<noteq> CHR ''}'') cs = [] then Inl ValueError
             else (case map_of kw (takeWhile (\<lambda>x. x \<noteq> CHR ''}'') cs) of
                     None \<Rightarrow> Inl KeyError
                   | Some v \<Rightarrow> emit v (py_format (tl (dropWhile (\<lambda>x. x \<noteq> CHR ''}'') cs)) kw)))
      else if c = CHR ''}'' then
        (case cs of
           [] \<Rightarrow> Inl ValueError
         | d # ds \<Rightarrow> if d = CHR ''}'' then emit ''}'' (py_format ds kw) else Inl ValueError)
      else emit [c] (py_format cs kw))"
  by pat_completeness auto
termination
proof (relation "measure (\<lambda>(s, kw). length s)")
  show "wf (measure (\<lambda>(s, kw). length s))" by simp
next
  fix c :: char and cs kw d ds
  show "cs = d # ds \<Longrightarrow> ((ds, kw), (c # cs, kw)) \<in> measure (\<lambda>(s, kw). length s)" by simp
next
  fix c :: char and cs :: string and kw :: "(string \<times> string) list" and d ds x2
  have "length (tl (dropWhile (\<lambda>x. x \<noteq> CHR ''}'') cs)) \<le> length cs"
    using length_dropWhile_le [of "\<lambda>x. x \<noteq> CHR ''}''" cs] by simp
  then show "((tl (dropWhile (\<lambda>x. x \<noteq> CHR ''}'') cs), kw), (c # cs, kw)) \<in> measure (\<lambda>(s, kw). length s)"
    by simp
next
  fix c :: char and cs kw d ds
  show "cs = d # ds \<Longrightarrow> ((ds, kw), (c # cs, kw)) \<in> measure (\<lambda>(s, kw). length s)" by simp
next
  fix c :: char and cs :: string and kw :: "(string \<times> string) list"
  show "((cs, kw), (c # cs, kw)) \<in> measure (\<lambda>(s, kw). length s)" by simp
qed

text \<open>The prompt of \<^verbatim>\<open>get_events_from_email\<close>: the same call in both programs.\<close>

definition build_prompt :: "date \<Rightarrow> email_data \<Rightarrow> exn + string" where
  "build_prompt today e =
     py_format (GEMINI_PROMPT_TEMPLATE today)
       [(''de'', py_str (from_hdr e)), (''para'', py_str (to_hdr e)),
        (''assunto'', subject e), (''conteudo'', body e)]"

text \<open>The text the template renders to: the head with its doubled braces read as
  single ones, the date, and the four values in their places.\<close>

definition rendered_head :: string where
  \<open>rendered_head =
     template_intro @ ''{"eventos": []}. Considere a data de hoje como: ''\<close>

definition prompt_text :: "date \<Rightarrow> email_data \<Rightarrow> string" where
  "prompt_text today e =
     rendered_head @ strftime_ymd today @ ''. Segue o e-mail:'' @ [CHR 0x0A, CHR 0x0A] @
     ''De: '' @ py_str (from_hdr e) @ [CHR 0x0A] @
     ''Para: '' @ py_str (to_hdr e) @ [CHR 0x0A] @
     ''Assunto: '' @ subject e @ [CHR 0x0A, CHR 0x0A] @
     ''Conte'' @ [CHR 0xFA] @ ''do:'' @ [CHR 0x0A] @ body e"


section \<open>JSON decoding\<close>

text \<open>\<^verbatim>\<open>json.loads\<close> as the standard decoder scans a text: white space is SPACE, TAB,
  LF and CR; a value is a string, an object, an array, \<^verbatim>\<open>null\<close>, \<^verbatim>\<open>true\<close>,
  \<^verbatim>\<open>false\<close>, a number, or one of \<^verbatim>\<open>NaN\<close>, \<^verbatim>\<open>Infinity\<close>, \<^verbatim>\<open>-Infinity\<close>;
  anything after the value but white space is an error. \<open>None\<close> stands for
  \<^verbatim>\<open>JSONDecodeError\<close>.\<close>

definition json_ws :: "char \<Rightarrow> bool" where
  "json_ws c = (c \<in> set [CHR 0x20, CHR 0x09, CHR 0x0A, CHR 0x0D])"

definition skip_ws :: "string \<Rightarrow> string" where
  "skip_ws s = dropWhile json_ws s"

definition is_digit :: "char \<Rightarrow> bool" where
  "is_digit c = (c \<in> set ''0123456789'')"

definition digit_val :: "char \<Rightarrow> nat" where
  "digit_val c = of_char c - 48"

definition hex_val :: "char \<Rightarrow> nat option" where
  "hex_val c =
     (if is_digit c then Some (digit_val c)
      else if c \<in> set ''abcdef'' then Some (of_char c - 87)
      else if c \<in> set ''ABCDEF'' then Some (of_char c - 55)
      else None)"

definition decode_uXXXX :: "string \<Rightarrow> nat option" where
  "decode_uXXXX h =
     (case map hex_val h of
        [Some a, Some b, Some c, Some d] \<Rightarrow> Some (((a * 16 + b) * 16 + c) * 16 + d)
      | _ \<Rightarrow> None)"

definition escape_char :: "char \<Rightarrow> char option" where
  "escape_char e =
     (if e = CHR 0x22 then Some (CHR 0x22)
      else if e = CHR 0x5C then Some (CHR 0x5C)
      else if e = CHR ''/'' then Some (CHR ''/'')
      else if e = CHR ''b'' then Some (CHR 0x08)
      else if e = CHR ''f'' then Some (CHR 0x0C)
      else if e = CHR ''n'' then Some (CHR 0x0A)
      else if e = CHR ''r'' then Some (CHR 0x0D)
      else if e = CHR ''t'' then Some (CHR 0x09)
      else None)"

definition push :: "string \<Rightarrow> (string \<times> string) option \<Rightarrow> (string \<times> string) option" where
  "push t r = (case r of None \<Rightarrow> None | Some (u, rest) \<Rightarrow> Some (t @ u, rest))"

text \<open>\<^verbatim>\<open>scanstring\<close>, from the character after the opening quote: the decoded string
  and the text after the closing quote. A control character below U+0020 is refused
  (strict mode). An escape \<^verbatim>\<open>\uXXXX\<close> below U+0100 is decoded; a larger code point has
  no \<^typ>\<open>char\<close> and stays in the string in its escaped form.\<close>

function scanstring :: "string \<Rightarrow> (string \<times> string) option" where
  "scanstring [] = None"
| "scanstring (c # cs) =
     (if c = CHR 0x22 then Some ([], cs)
      else if c = CHR 0x5C then
        (case cs of
           [] \<Rightarrow> None
         | e # r \<Rightarrow>
             if e = CHR ''u'' then
               (case decode_uXXXX (take 4 r) of
                  None \<Rightarrow> None
                | Some n \<Rightarrow>
                    push (if n < 256 then [char_of n] else CHR 0x5C # CHR ''u'' # take 4 r)
                         (scanstring (drop 4 r)))
             else (case escape_char e of
                     None \<Rightarrow> None
                   | Some ch \<Rightarrow> push [ch] (scanstring r)))
      else if (of_char c :: nat) < 32 then None
      else push [c] (scanstring cs))"
  by pat_completeness auto
termination
  by (relation "measure length") auto

text \<open>The number pattern of the decoder,
  \<^verbatim>\<open>(-?(?:0|[1-9][0-9]*))(\.[0-9]+)?([eE][-+]?[0-9]+)?\<close>: an integer when neither the
  fraction nor the exponent is there, a float otherwise.\<close>

definition int_part :: "string \<Rightarrow> string" where
  "int_part s =
     (case s of
        [] \<Rightarrow> []
      | c # cs \<Rightarrow> if c = CHR ''0'' then ''0''
                  else if is_digit c then takeWhile is_digit s
                  else [])"

definition frac_part :: "string \<Rightarrow> string" where
  "frac_part s =
     (case s of
        [] \<Rightarrow> []
      | c # cs \<Rightarrow> if c = CHR ''.'' \<and> takeWhile is_digit cs \<noteq> [] then c # takeWhile is_digit cs else [])"

definition exp_part :: "string \<Rightarrow> string" where
  "exp_part s =
     (case s of
        [] \<Rightarrow> []
      | c # cs \<Rightarrow>
          if c = CHR ''e'' \<or> c = CHR ''E'' then
            (case cs of
               [] \<Rightarrow> []
             | g # ds \<Rightarrow>
                 if (g = CHR ''-'' \<or> g = CHR ''+'') \<and> takeWhile is_digit ds \<noteq> []
                   then c # g # takeWhile is_digit ds
                 else if takeWhile is_digit cs \<noteq> [] then c # takeWhile is_digit cs
                 else [])
          else [])"

definition nat_of_digits :: "string \<Rightarrow> nat" where
  "nat_of_digits ds = foldl (\<lambda>n c. 10 * n + digit_val c) 0 ds"

definition match_number :: "string \<Rightarrow> (json \<times> string) option" where
  "match_number s =
     (let sign = (if take 1 s = ''-'' then ''-'' else []);
          s1 = drop (length sign) s;
          i = int_part s1
      in if i = [] then None
         else
           let s2 = drop (length i) s1;
               f = frac_part s2;
               s3 = drop (length f) s2;
               e = exp_part s3;
               s4 = drop (length e) s3
           in if f = [] \<and> e = []
              then Some (JInt (if sign = [] then int (nat_of_digits i) else - int (nat_of_digits i)), s4)
              else Some (JFloat (sign @ i @ f @ e), s4))"

text \<open>\<^verbatim>\<open>dict(pairs)\<close>: a repeated key keeps its first place and takes the last value.\<close>

fun dict_set :: "(string \<times> json) list \<Rightarrow> string \<Rightarrow> json \<Rightarrow> (string \<times> json) list" where
  "dict_set [] k v = [(k, v)]"
| "dict_set ((k', v') # kvs) k v = (if k' = k then (k, v) # kvs else (k', v') # dict_set kvs k v)"

text \<open>\<^verbatim>\<open>scan_once\<close> with the array and object loops of the decoder. The first argument
  bounds the depth of the calls; every call happens after at least one more character
  has been consumed, so the length of the text plus one is enough.
  \<open>scan_array\<close> starts at the first character of an element, \<open>scan_object\<close> right
  after the opening quote of a key.\<close>

fun scan_once :: "nat \<Rightarrow> string \<Rightarrow> (json \<times> string) option"
  and scan_array :: "nat \<Rightarrow> string \<Rightarrow> json list \<Rightarrow> (json \<times> string) option"
  and scan_object :: "nat \<Rightarrow> string \<Rightarrow> (string \<times> json) list \<Rightarrow> (json \<times> string) option"
where
  "scan_once 0 s = None"
| "scan_once (Suc n) s =
     (case s of
        [] \<Rightarrow> None
      | c # cs \<Rightarrow>
          if c = CHR 0x22 then
            (case scanstring cs of None \<Rightarrow> None | Some (t, r) \<Rightarrow> Some (JStr t, r))
          else if c = CHR ''{'' then
            (case skip_ws cs of
               [] \<Rightarrow> None
             | d # r \<Rightarrow> if d = CHR ''}'' then Some (JObj [], r)
                        else if d = CHR 0x22 then scan_object n r []
                        else None)
          else if c = CHR ''['' then
            (case skip_ws cs of
               [] \<Rightarrow> None
             | d # r \<Rightarrow> if d = CHR '']'' then Some (JArr [], r)
                        else scan_array n (d # r) [])
          else if take 4 s = ''null'' then Some (JNull, drop 4 s)
          else if take 4 s = ''true'' then Some (JBool True, drop 4 s)
          else if take 5 s = ''false'' then Some (JBool False, drop 5 s)
          else (case match_number s of
                  Some r \<Rightarrow> Some r
                | None \<Rightarrow>
                    if take 3 s = ''NaN'' then Some (JFloat ''NaN'', drop 3 s)
                    else if take 8 s = ''Infinity'' then Some (JFloat ''Infinity'', drop 8 s)
                    else if take 9 s = ''-Infinity'' then Some (JFloat ''-Infinity'', drop 9 s)
                    else None))"
| "scan_array 0 s acc = None"
| "scan_array (Suc n) s acc =
     (case scan_once n s of
        None \<Rightarrow> None
      | Some (v, r) \<Rightarrow>
          (case skip_ws r of
             [] \<Rightarrow> None
           | d # r' \<Rightarrow> if d = CHR '']'' then Some (JArr (acc @ [v]), r')
                       else if d = CHR '','' then scan_array n (skip_ws r') (acc @ [v])
                       else None))"
| "scan_object 0 s acc = None"
| "scan_object (Suc n) s acc =
     (case scanstring s of
        None \<Rightarrow> None
      | Some (key, r) \<Rightarrow>
          (case skip_ws r of
             [] \<Rightarrow> None
           | d # r1 \<Rightarrow>
               if d \<noteq> CHR '':'' then None
               else
                 (case scan_once n (skip_ws r1) of
                    None \<Rightarrow> None
                  | Some (v, r2) \<Rightarrow>
                      (case skip_ws r2 of
                         [] \<Rightarrow> None
                       | g # r3 \<Rightarrow>
                           if g = CHR ''}'' then Some (JObj (dict_set acc key v), r3)
                           else if g = CHR '','' then
                             (case skip_ws r3 of
                                [] \<Rightarrow> None
                              | q # r4 \<Rightarrow> if q = CHR 0x22 then scan_object n r4 (dict_set acc key v)
                                          else None)
                           else None))))"

definition json_loads :: "string \<Rightarrow> json option" where
  "json_loads s =
     (case scan_once (Suc (length s)) (skip_ws s) of
        None \<Rightarrow> None
      | Some (v, r) \<Rightarrow> if skip_ws r = [] then Some v else None)"

section \<open>Python operations on decoded values\<close>

text \<open>\<^verbatim>\<open>x[key]\<close> with a string key: a dict looks the key up, a list or a string wants an
  integer index, the other values cannot be subscripted.\<close>

fun subscript_key :: "json \<Rightarrow> string \<Rightarrow> exn + json" where
  "subscript_key (JObj kvs) k = (case map_of kvs k of None \<Rightarrow> Inl KeyError | Some v \<Rightarrow> Inr v)"
| "subscript_key v k = Inl TypeError"

text \<open>\<^verbatim>\<open>x[0]\<close>: the first element of a list, the first character of a string; a dict
  decoded from JSON has string keys only, so \<^verbatim>\<open>0\<close> is a missing key.\<close>

fun subscript_zero :: "json \<Rightarrow> exn + json" where
  "subscript_zero (JArr xs) = (case xs of [] \<Rightarrow> Inl IndexError | x # _ \<Rightarrow> Inr x)"
| "subscript_zero (JStr s) = (case s of [] \<Rightarrow> Inl IndexError | c # _ \<Rightarrow> Inr (JStr [c]))"
| "subscript_zero (JObj kvs) = Inl KeyError"
| "subscript_zero v = Inl TypeError"

text \<open>\<^verbatim>\<open>x.get(key, default)\<close> exists on a dict only.\<close>

fun py_get :: "json \<Rightarrow> string \<Rightarrow> json \<Rightarrow> exn + json" where
  "py_get (JObj kvs) k dflt = (case map_of kvs k of None \<Rightarrow> Inr dflt | Some v \<Rightarrow> Inr v)"
| "py_get v k dflt = Inl AttributeError"

text \<open>\<^verbatim>\<open>key in x\<close> for a string key: a key of a dict, an element of a list, a substring
  of a string; the other values are not containers.\<close>

definition is_substring :: "string \<Rightarrow> string \<Rightarrow> bool" where
  "is_substring p s = list_ex (\<lambda>i. take (length p) (drop i s) = p) [0 ..< Suc (length s)]"

fun py_in :: "string \<Rightarrow> json \<Rightarrow> exn + bool" where
  "py_in k (JObj kvs) = Inr (k \<in> set (map fst kvs))"
| "py_in k (JArr xs) = Inr (JStr k \<in> set xs)"
| "py_in k (JStr s) = Inr (is_substring k s)"
| "py_in k v = Inl TypeError"

text \<open>Truth value of \<^verbatim>\<open>if x:\<close>. A float is false when all the digits of its mantissa are
  zero; a float that underflows to zero is not modelled.\<close>

definition float_is_zero :: "string \<Rightarrow> bool" where
  "float_is_zero l = (l \<noteq> ''NaN'' \<and> l \<noteq> ''Infinity'' \<and> l \<noteq> ''-Infinity'' \<and>
      list_all (\<lambda>c. c = CHR ''0'' \<or> (if is_digit c then False else True))
        (takeWhile (\<lambda>c. c \<noteq> CHR ''e'' \<and> c \<noteq> CHR ''E'') l))"

fun truthy :: "json \<Rightarrow> bool" where
  "truthy JNull = False"
| "truthy (JBool b) = b"
| "truthy (JInt i) = (i \<noteq> 0)"
| "truthy (JFloat l) = (\<not> float_is_zero l)"
| "truthy (JStr s) = (s \<noteq> [])"
| "truthy (JArr xs) = (xs \<noteq> [])"
| "truthy (JObj kvs) = (kvs \<noteq> [])"

text \<open>What \<^verbatim>\<open>for event in x\<close> runs over: the elements of a list, the characters of a
  string, the keys of a dict; the other values are not iterable.\<close>

fun py_iter :: "json \<Rightarrow> exn + json list" where
  "py_iter (JArr xs) = Inr xs"
| "py_iter (JStr s) = Inr (map (\<lambda>c. JStr [c]) s)"
| "py_iter (JObj kvs) = Inr (map (\<lambda>kv. JStr (fst kv)) kvs)"
| "py_iter v = Inl TypeError"

section \<open>Effects\<close>

text \<open>What the programs do to the outside is recorded in order: log lines with their
  level, requests to the inference service (prompt and timeout), sleeps, mailbox
  commands, and the calls of the calendar binding.\<close>

datatype level = INFO | WARNING | ERROR

record payload =
  p_summary :: json
  p_location :: string
  p_description :: json
  p_start_dateTime :: json
  p_start_timeZone :: string
  p_end_dateTime :: json
  p_end_timeZone :: string

datatype effect =
    Log level
  | Post string nat
  | Sleep nat
  | ImapConnect string
  | ImapLogin "string option" "string option"
  | ImapSelect
  | ImapSearch
  | ImapFetch string
  | ImapStore string
  | ImapLogout
  | LoadCredentials
  | CalendarInsert payload

text \<open>One answer of the inference service to one request: the request fails in
  transport, or a status code and a body come back.\<close>

datatype http_reply = ConnectionFailed | Reply nat string

text \<open>\<^verbatim>\<open>response.raise_for_status()\<close> raises for the codes 400 to 599.\<close>

definition raise_for_status :: "nat \<Rightarrow> bool" where
  "raise_for_status code = (400 \<le> code \<and> code < 600)"

text \<open>\<^verbatim>\<open>response.json()["candidates"][0]["content"]["parts"][0]["text"]\<close>, on the decoded
  body.\<close>

definition envelope_text :: "json \<Rightarrow> exn + json" where
  "envelope_text j =
     (case subscript_key j ''candidates'' of Inl e \<Rightarrow> Inl e | Inr a \<Rightarrow>
      case subscript_zero a of Inl e \<Rightarrow> Inl e | Inr b \<Rightarrow>
      case subscript_key b ''content'' of Inl e \<Rightarrow> Inl e | Inr c \<Rightarrow>
      case subscript_key c ''parts'' of Inl e \<Rightarrow> Inl e | Inr d \<Rightarrow>
      case subscript_zero d of Inl e \<Rightarrow> Inl e | Inr f \<Rightarrow>
      subscript_key f ''text'')"

section \<open>Extraction Client\<close>

text \<open>The request and the reading of the answer, up to the value bound to
  \<^verbatim>\<open>raw_response\<close>: \<^verbatim>\<open>requests.post\<close>, \<^verbatim>\<open>raise_for_status\<close>, \<^verbatim>\<open>response.json()\<close>
  and the path into the envelope. A body that is not JSON makes \<^verbatim>\<open>response.json()\<close>
  raise the \<^verbatim>\<open>JSONDecodeError\<close> of \<^verbatim>\<open>requests\<close>, which is a \<^verbatim>\<open>RequestException\<close>
  (requests 2.27 and later) and is caught by the first handler.\<close>

definition fetch_text :: "http_reply \<Rightarrow> exn + json" where
  "fetch_text r =
     (case r of
        ConnectionFailed \<Rightarrow> Inl RequestException
      | Reply code text \<Rightarrow>
          if raise_for_status code then Inl RequestException
          else (case json_loads text of
                  None \<Rightarrow> Inl RequestException
                | Some j \<Rightarrow> envelope_text j))"

definition fence_json :: string where
  "fence_json = [CHR 0x60, CHR 0x60, CHR 0x60] @ ''json''"

definition fence :: string where
  "fence = [CHR 0x60, CHR 0x60, CHR 0x60]"

text \<open>Agendator.py:
  \<^verbatim>\<open>raw_response.strip().replace('```json', '').replace('```', '')\<close>.\<close>

definition clean_loop_str :: "string \<Rightarrow> string" where
  "clean_loop_str s = py_replace fence [] (py_replace fence_json [] (py_strip s))"

fun clean_loop :: "json \<Rightarrow> exn + string" where
  "clean_loop (JStr s) = Inr (clean_loop_str s)"
| "clean_loop v = Inl AttributeError"

text \<open>AgendatorActions.py: strip, drop a leading \<^verbatim>\<open>```json\<close> (\<^verbatim>\<open>[7:]\<close>), drop a trailing
  \<^verbatim>\<open>```\<close> (\<^verbatim>\<open>[:-3]\<close>), strip again.\<close>

definition clean_single_str :: "string \<Rightarrow> string" where
  "clean_single_str s =
     (let c0 = py_strip s;
          c1 = (if py_startswith c0 fence_json then drop 7 c0 else c0);
          c2 = (if py_endswith c1 fence then take (length c1 - 3) c1 else c1)
      in py_strip c2)"

fun clean_single :: "json \<Rightarrow> exn + string" where
  "clean_single (JStr s) = Inr (clean_single_str s)"
| "clean_single v = Inl AttributeError"

text \<open>\<^verbatim>\<open>json.loads(clean_json_str)\<close> followed by \<^verbatim>\<open>event_data.get("eventos", [])\<close>.\<close>

definition parse_events :: "string \<Rightarrow> exn + json" where
  "parse_events clean =
     (case json_loads clean of
        None \<Rightarrow> Inl JSONDecodeError
      | Some event_data \<Rightarrow> py_get event_data ''eventos'' (JArr []))"

text \<open>The three handlers of Agendator.py, each followed by the final
  \<^verbatim>\<open>return []\<close>; any other exception leaves the function.\<close>

definition except_loop :: "exn \<Rightarrow> effect list \<Rightarrow> (exn + json) \<times> effect list" where
  "except_loop ex t =
     (if ex = RequestException \<or> ex = KeyError \<or> ex = IndexError \<or> ex = JSONDecodeError
      then (Inr (JArr []), t @ [Log ERROR])
      else (Inl ex, t))"

text \<open>\<^verbatim>\<open>get_events_from_email\<close> of Agendator.py: one request with timeout 20. The
  answer of the service to the request number \<open>i\<close> of this call is \<open>reply i\<close>.\<close>

definition get_events_from_email_loop ::
  "date \<Rightarrow> (nat \<Rightarrow> http_reply) \<Rightarrow> email_data \<Rightarrow> (exn + json) \<times> effect list" where
  "get_events_from_email_loop today reply e =
     (case build_prompt today e of
        Inl ex \<Rightarrow> (Inl ex, [])
      | Inr prompt \<Rightarrow>
          (case fetch_text (reply 0) of
             Inl ex \<Rightarrow> except_loop ex [Log INFO, Post prompt 20]
           | Inr raw_response \<Rightarrow>
               (case clean_loop raw_response of
                  Inl ex \<Rightarrow> except_loop ex [Log INFO, Post prompt 20, Log INFO]
                | Inr clean_json_str \<Rightarrow>
                    if clean_json_str = []
                    then (Inr (JArr []), [Log INFO, Post prompt 20, Log INFO, Log WARNING])
                    else (case parse_events clean_json_str of
                            Inl ex \<Rightarrow> except_loop ex [Log INFO, Post prompt 20, Log INFO]
                          | Inr events \<Rightarrow> (Inr events, [Log INFO, Post prompt 20, Log INFO])))))"

definition max_retries :: nat where
  "max_retries = 2"

text \<open>The handlers of AgendatorActions.py. The second one formats \<^verbatim>\<open>raw_response\<close>
  into its log line; when the name is not bound yet, reading it raises
  \<^verbatim>\<open>UnboundLocalError\<close> out of the handler. \<open>None\<close> as the outcome means that the loop
  goes on with the next attempt.\<close>

definition except_single ::
  "exn \<Rightarrow> nat \<Rightarrow> json option \<Rightarrow> ((exn + json) option) \<times> effect list" where
  "except_single ex attempt raw_response =
     (if ex = RequestException then
        (if attempt < max_retries - 1 then (None, [Log WARNING, Sleep 5])
         else (Some (Inr (JArr [])), [Log WARNING, Log ERROR]))
      else if ex = KeyError \<or> ex = IndexError \<or> ex = JSONDecodeError then
        (case raw_response of
           None \<Rightarrow> (Some (Inl UnboundLocalError), [])
         | Some r \<Rightarrow> (Some (Inr (JArr [])), [Log ERROR]))
      else (Some (Inl ex), []))"

text \<open>The body of the \<^verbatim>\<open>try\<close> of AgendatorActions.py after the request: the outcome
  (a returned value or the exception raised) with the log lines written and
  \<^verbatim>\<open>raw_response\<close> as it is bound at that moment.\<close>

definition try_single ::
  "http_reply \<Rightarrow> json option \<Rightarrow> (exn + json) \<times> effect list \<times> json option" where
  "try_single r raw0 =
     (case fetch_text r of
        Inl ex \<Rightarrow> (Inl ex, [], raw0)
      | Inr raw_response \<Rightarrow>
          (case clean_single raw_response of
             Inl ex \<Rightarrow> (Inl ex, [Log INFO], Some raw_response)
           | Inr clean_json_str \<Rightarrow>
               if clean_json_str = []
               then (Inr (JArr []), [Log INFO, Log WARNING], Some raw_response)
               else (parse_events clean_json_str, [Log INFO], Some raw_response)))"

text \<open>\<^verbatim>\<open>for attempt in range(max_retries)\<close>: the first argument counts the iterations
  left, the last one is \<^verbatim>\<open>raw_response\<close> (\<open>None\<close> while unbound).\<close>

fun retry_loop ::
  "nat \<Rightarrow> nat \<Rightarrow> string \<Rightarrow> (nat \<Rightarrow> http_reply) \<Rightarrow> json option \<Rightarrow> (exn + json) \<times> effect list" where
  "retry_loop 0 attempt prompt reply raw = (Inr (JArr []), [])"
| "retry_loop (Suc k) attempt prompt reply raw =
     (case try_single (reply attempt) raw of
        (Inr events, t, raw') \<Rightarrow> (Inr events, [Log INFO, Post prompt 30] @ t)
      | (Inl ex, t, raw') \<Rightarrow>
          (case except_single ex attempt raw' of
             (Some out, t') \<Rightarrow> (out, [Log INFO, Post prompt 30] @ t @ t')
           | (None, t') \<Rightarrow>
               (case retry_loop k (Suc attempt) prompt reply raw' of
                  (out, t'') \<Rightarrow> (out, [Log INFO, Post prompt 30] @ t @ t' @ t''))))"

text \<open>\<^verbatim>\<open>get_events_from_email\<close> of AgendatorActions.py.\<close>

definition get_events_from_email_single ::
  "date \<Rightarrow> (nat \<Rightarrow> http_reply) \<Rightarrow> email_data \<Rightarrow> (exn + json) \<times> effect list" where
  "get_events_from_email_single today reply e =
     (case build_prompt today e of
        Inl ex \<Rightarrow> (Inl ex, [])
      | Inr prompt \<Rightarrow> retry_loop max_retries 0 prompt reply None)"

text \<open>Reading a trace: the requests sent to the inference service.\<close>

fun is_post :: "effect \<Rightarrow> bool" where
  "is_post (Post p t) = True"
| "is_post x = False"

definition requests_made :: "effect list \<Rightarrow> nat" where
  "requests_made t = length (filter is_post t)"

section \<open>Dates and times\<close>

text \<open>A \<^verbatim>\<open>datetime\<close> with whole seconds; \<open>dt_offset\<close> is the UTC offset in minutes,
  \<open>None\<close> for a naive value.\<close>

record datetime =
  dt_year :: nat
  dt_month :: nat
  dt_day :: nat
  dt_hour :: nat
  dt_minute :: nat
  dt_second :: nat
  dt_offset :: "int option"

definition is_leap :: "nat \<Rightarrow> bool" where
  "is_leap y = (if y mod 400 = 0 then True else if y mod 100 = 0 then False else y mod 4 = 0)"

definition days_in_month :: "nat \<Rightarrow> nat \<Rightarrow> nat" where
  "days_in_month y m =
     (if m = 2 then (if is_leap y then 29 else 28)
      else if m = 4 \<or> m = 6 \<or> m = 9 \<or> m = 11 then 30
      else 31)"

definition digits_val :: "string \<Rightarrow> nat option" where
  "digits_val s = (if s \<noteq> [] \<and> list_all is_digit s then Some (nat_of_digits s) else None)"

text \<open>\<^verbatim>\<open>YYYY-MM-DD\<close>, ten characters, with the range checks of \<^verbatim>\<open>date\<close>.\<close>

definition parse_date :: "string \<Rightarrow> (nat \<times> nat \<times> nat) option" where
  "parse_date s =
     (if length s = 10 \<and> s ! 4 = CHR ''-'' \<and> s ! 7 = CHR ''-'' then
        (case (digits_val (take 4 s), digits_val (take 2 (drop 5 s)), digits_val (drop 8 s)) of
           (Some y, Some m, Some d) \<Rightarrow>
             if 1 \<le> y \<and> 1 \<le> m \<and> m \<le> 12 \<and> 1 \<le> d \<and> d \<le> days_in_month y m
             then Some (y, m, d) else None
         | _ \<Rightarrow> None)
      else None)"

text \<open>\<^verbatim>\<open>HH\<close>, \<^verbatim>\<open>HH:MM\<close> or \<^verbatim>\<open>HH:MM:SS\<close>, without range checks.\<close>

definition parse_hh_mm_ss :: "string \<Rightarrow> (nat \<times> nat \<times> nat) option" where
  "parse_hh_mm_ss s =
     (if length s = 2 then
        (case digits_val s of Some h \<Rightarrow> Some (h, 0, 0) | None \<Rightarrow> None)
      else if length s = 5 \<and> s ! 2 = CHR '':'' then
        (case (digits_val (take 2 s), digits_val (drop 3 s)) of
           (Some h, Some m) \<Rightarrow> Some (h, m, 0)
         | _ \<Rightarrow> None)
      else if length s = 8 \<and> s ! 2 = CHR '':'' \<and> s ! 5 = CHR '':'' then
        (case (digits_val (take 2 s), digits_val (take 2 (drop 3 s)), digits_val (drop 6 s)) of
           (Some h, Some m, Some sec) \<Rightarrow> Some (h, m, sec)
         | _ \<Rightarrow> None)
      else None)"

definition is_sign :: "char \<Rightarrow> bool" where
  "is_sign c = (c = CHR ''+'' \<or> c = CHR ''-'')"

text \<open>\<^verbatim>\<open>datetime.fromisoformat\<close> as Python 3.7 to 3.10 define it: the date, then any one
  separator character, the time, and an offset \<^verbatim>\<open>+HH:MM\<close> or \<^verbatim>\<open>-HH:MM\<close> of less than
  a day. Fractional seconds and offsets with seconds are outside the model, which
  refuses them; so are the further ISO forms that Python 3.11 accepts.\<close>

definition fromisoformat :: "string \<Rightarrow> exn + datetime" where
  "fromisoformat s =
     (case parse_date (take 10 s) of
        None \<Rightarrow> Inl ValueError
      | Some (y, m, d) \<Rightarrow>
          if length s = 10 then
            Inr \<lparr>dt_year = y, dt_month = m, dt_day = d, dt_hour = 0, dt_minute = 0,
                 dt_second = 0, dt_offset = None\<rparr>
          else
            (case parse_hh_mm_ss (takeWhile (\<lambda>c. \<not> is_sign c) (drop 11 s)) of
               None \<Rightarrow> Inl ValueError
             | Some (h, mi, sec) \<Rightarrow>
                 if 23 < h \<or> 59 < mi \<or> 59 < sec then Inl ValueError
                 else
                   (case dropWhile (\<lambda>c. \<not> is_sign c) (drop 11 s) of
                      [] \<Rightarrow> Inr \<lparr>dt_year = y, dt_month = m, dt_day = d, dt_hour = h,
                                 dt_minute = mi, dt_second = sec, dt_offset = None\<rparr>
                    | sg # z \<Rightarrow>
                        (case (if length z = 5 then parse_hh_mm_ss z else None) of
                           None \<Rightarrow> Inl ValueError
                         | Some (zh, zm, zs) \<Rightarrow>
                             if 1440 \<le> zh * 60 + zm then Inl ValueError
                             else Inr \<lparr>dt_year = y, dt_month = m, dt_day = d, dt_hour = h,
                                       dt_minute = mi, dt_second = sec,
                                       dt_offset = Some (if sg = CHR ''-'' then - int (zh * 60 + zm)
                                                         else int (zh * 60 + zm))\<rparr>))))"

text \<open>\<^verbatim>\<open>start_time + timedelta(hours=1)\<close>: the next hour, rolling over the day, the month
  and the year; past the year 9999 the addition raises \<^verbatim>\<open>OverflowError\<close>.\<close>

definition add_one_hour :: "datetime \<Rightarrow> exn + datetime" where
  "add_one_hour t =
     (if dt_hour t < 23 then Inr (t\<lparr>dt_hour := dt_hour t + 1\<rparr>)
      else if dt_day t < days_in_month (dt_year t) (dt_month t)
        then Inr (t\<lparr>dt_hour := 0, dt_day := dt_day t + 1\<rparr>)
      else if dt_month t < 12
        then Inr (t\<lparr>dt_hour := 0, dt_day := 1, dt_month := dt_month t + 1\<rparr>)
      else if dt_year t < 9999
        then Inr (t\<lparr>dt_hour := 0, dt_day := 1, dt_month := 1, dt_year := dt_year t + 1\<rparr>)
      else Inl OverflowError)"

text \<open>\<^verbatim>\<open>isoformat()\<close>: \<^verbatim>\<open>YYYY-MM-DDTHH:MM:SS\<close> and the offset when there is one.\<close>

definition format_offset :: "int option \<Rightarrow> string" where
  "format_offset z =
     (case z of
        None \<Rightarrow> []
      | Some off \<Rightarrow>
          (if off < 0 then ''-'' else ''+'') @ zero_pad 2 (nat \<bar>off\<bar> div 60) @ '':'' @
          zero_pad 2 (nat \<bar>off\<bar> mod 60))"

definition isoformat :: "datetime \<Rightarrow> string" where
  "isoformat t =
     zero_pad 4 (dt_year t) @ ''-'' @ zero_pad 2 (dt_month t) @ ''-'' @ zero_pad 2 (dt_day t) @
     ''T'' @ zero_pad 2 (dt_hour t) @ '':'' @ zero_pad 2 (dt_minute t) @ '':'' @
     zero_pad 2 (dt_second t) @ format_offset (dt_offset t)"

text \<open>The instant of a \<^verbatim>\<open>datetime\<close> in seconds, counted as \<^verbatim>\<open>toordinal\<close> counts days
  (day 1 is 1 January of year 1) and shifted by the offset.\<close>

definition days_before_year :: "nat \<Rightarrow> int" where
  "days_before_year y =
     365 * (int y - 1) + (int y - 1) div 4 - (int y - 1) div 100 + (int y - 1) div 400"

definition days_before_month :: "nat \<Rightarrow> nat \<Rightarrow> nat" where
  "days_before_month y m = sum_list (map (days_in_month y) [1 ..< m])"

definition utc_seconds :: "datetime \<Rightarrow> int" where
  "utc_seconds t =
     (days_before_year (dt_year t) + int (days_before_month (dt_year t) (dt_month t)) + int (dt_day t)) * 86400
     + int (dt_hour t) * 3600 + int (dt_minute t) * 60 + int (dt_second t)
     - 60 * (case dt_offset t of None \<Rightarrow> 0 | Some off \<Rightarrow> off)"

definition valid_datetime :: "datetime \<Rightarrow> bool" where
  "valid_datetime t =
     (1 \<le> dt_year t \<and> 1 \<le> dt_month t \<and> dt_month t \<le> 12 \<and> 1 \<le> dt_day t \<and>
      dt_day t \<le> days_in_month (dt_year t) (dt_month t) \<and>
      dt_hour t \<le> 23 \<and> dt_minute t \<le> 59 \<and> dt_second t \<le> 59)"

section \<open>Event Materializer\<close>

text \<open>The calendar binding as the programs use it, over a state \<open>'s\<close> of the service:
  loading the credentials and building the client may raise; inserting an event
  raises or returns the link of the created event, and changes the state.\<close>

record 's calendar_api =
  load_credentials :: "'s \<Rightarrow> exn option"
  insert_event :: "'s \<Rightarrow> payload \<Rightarrow> (exn + string option) \<times> 's"

text \<open>The event dictionary of Agendator.py: the end carries the start string as it
  is.\<close>

definition build_event_loop :: "json \<Rightarrow> exn + payload" where
  "build_event_loop event_info =
     (case subscript_key event_info ''summary'' of Inl ex \<Rightarrow> Inl ex | Inr summary \<Rightarrow>
      case subscript_key event_info ''start_datetime'' of Inl ex \<Rightarrow> Inl ex | Inr start \<Rightarrow>
        Inr \<lparr>p_summary = summary, p_location = ''Remoto'', p_description = summary,
             p_start_dateTime = start, p_start_timeZone = ''America/Sao_Paulo'',
             p_end_dateTime = start, p_end_timeZone = ''America/Sao_Paulo''\<rparr>)"

text \<open>\<^verbatim>\<open>datetime.fromisoformat\<close> wants a string.\<close>

fun fromisoformat_value :: "json \<Rightarrow> exn + datetime" where
  "fromisoformat_value (JStr s) = fromisoformat s"
| "fromisoformat_value v = Inl TypeError"

text \<open>The event dictionary of AgendatorActions.py: the end is the start plus one hour,
  written by \<^verbatim>\<open>isoformat\<close>.\<close>

definition build_event_single :: "json \<Rightarrow> exn + payload" where
  "build_event_single event_info =
     (case subscript_key event_info ''start_datetime'' of Inl ex \<Rightarrow> Inl ex | Inr start_time_str \<Rightarrow>
      case fromisoformat_value start_time_str of Inl ex \<Rightarrow> Inl ex | Inr start_time \<Rightarrow>
      case add_one_hour start_time of Inl ex \<Rightarrow> Inl ex | Inr end_time \<Rightarrow>
      case subscript_key event_info ''summary'' of Inl ex \<Rightarrow> Inl ex | Inr summary \<Rightarrow>
      case py_get event_info ''summary'' (JStr []) of Inl ex \<Rightarrow> Inl ex | Inr description \<Rightarrow>
        Inr \<lparr>p_summary = summary, p_location = ''Remoto'', p_description = description,
             p_start_dateTime = start_time_str, p_start_timeZone = ''America/Sao_Paulo'',
             p_end_dateTime = JStr (isoformat end_time), p_end_timeZone = ''America/Sao_Paulo''\<rparr>)"

text \<open>\<^verbatim>\<open>create_calendar_event\<close>, the same frame in both programs around their own event
  dictionary: the first log line reads \<^verbatim>\<open>event_info['summary']\<close>, then the credentials
  are loaded, the event is built and inserted. Whatever is raised inside is caught by
  \<^verbatim>\<open>except Exception\<close>, logged, and answered with \<^verbatim>\<open>False\<close>.\<close>

definition create_calendar_event ::
  "(json \<Rightarrow> exn + payload) \<Rightarrow> 's calendar_api \<Rightarrow> 's \<Rightarrow> json \<Rightarrow> bool \<times> effect list \<times> 's" where
  "create_calendar_event build_event api s event_info =
     (case subscript_key event_info ''summary'' of
        Inl ex \<Rightarrow> (False, [Log ERROR], s)
      | Inr summary \<Rightarrow>
          (case load_credentials api s of
             Some ex \<Rightarrow> (False, [Log INFO, LoadCredentials, Log ERROR], s)
           | None \<Rightarrow>
               (case build_event event_info of
                  Inl ex \<Rightarrow> (False, [Log INFO, LoadCredentials, Log ERROR], s)
                | Inr event \<Rightarrow>
                    (case insert_event api s event of
                       (Inl ex, s') \<Rightarrow>
                         (False, [Log INFO, LoadCredentials, CalendarInsert event, Log ERROR], s')
                     | (Inr link, s') \<Rightarrow>
                         (True, [Log INFO, LoadCredentials, CalendarInsert event, Log INFO], s')))))"

definition create_calendar_event_loop ::
  "'s calendar_api \<Rightarrow> 's \<Rightarrow> json \<Rightarrow> bool \<times> effect list \<times> 's" where
  "create_calendar_event_loop = create_calendar_event build_event_loop"

definition create_calendar_event_single ::
  "'s calendar_api \<Rightarrow> 's \<Rightarrow> json \<Rightarrow> bool \<times> effect list \<times> 's" where
  "create_calendar_event_single = create_calendar_event build_event_single"

section \<open>Event Validator and the loop over the events\<close>

text \<open>\<^verbatim>\<open>'start_datetime' in event and 'summary' in event\<close>; the second test runs only
  when the first holds.\<close>

definition validate :: "json \<Rightarrow> exn + bool" where
  "validate event =
     (case py_in ''start_datetime'' event of
        Inl ex \<Rightarrow> Inl ex
      | Inr b \<Rightarrow> if b then py_in ''summary'' event else Inr False)"

text \<open>\<^verbatim>\<open>for event in events\<close> of \<^verbatim>\<open>main\<close> and \<^verbatim>\<open>main_loop\<close>. The result holds the
  exception that left the loop, if any, the calls of \<^verbatim>\<open>create_calendar_event\<close> made
  (the event and what the call returned), the effects, and the state of the calendar.
  \<open>create\<close> is the \<^verbatim>\<open>create_calendar_event\<close> of the program.\<close>

fun process_events ::
  "('s \<Rightarrow> json \<Rightarrow> bool \<times> effect list \<times> 's) \<Rightarrow> 's \<Rightarrow> json list \<Rightarrow>
     exn option \<times> (json \<times> bool) list \<times> effect list \<times> 's" where
  "process_events create s [] = (None, [], [], s)"
| "process_events create s (event # rest) =
     (case validate event of
        Inl ex \<Rightarrow> (Some ex, [], [], s)
      | Inr ok \<Rightarrow>
          if ok then
            (case create s event of
               (b, t, s') \<Rightarrow>
                 (case process_events create s' rest of
                    (r, calls, t', s'') \<Rightarrow> (r, (event, b) # calls, t @ t', s'')))
          else
            (case process_events create s rest of
               (r, calls, t', s'') \<Rightarrow> (r, calls, Log WARNING # t', s'')))"

text \<open>\<^verbatim>\<open>if events: for event in events: ...\<close>.\<close>

definition handle_events ::
  "('s \<Rightarrow> json \<Rightarrow> bool \<times> effect list \<times> 's) \<Rightarrow> 's \<Rightarrow> json \<Rightarrow>
     exn option \<times> (json \<times> bool) list \<times> effect list \<times> 's" where
  "handle_events create s events =
     (if truthy events then
        (case py_iter events of
           Inl ex \<Rightarrow> (Some ex, [], [], s)
         | Inr evs \<Rightarrow> process_events create s evs)
      else (None, [], [], s))"

text \<open>Reading the result of the loop.\<close>

definition raised :: "exn option \<times> (json \<times> bool) list \<times> effect list \<times> 's \<Rightarrow> exn option" where
  "raised r = fst r"

definition calls :: "exn option \<times> (json \<times> bool) list \<times> effect list \<times> 's \<Rightarrow> (json \<times> bool) list" where
  "calls r = fst (snd r)"

definition trace :: "exn option \<times> (json \<times> bool) list \<times> effect list \<times> 's \<Rightarrow> effect list" where
  "trace r = fst (snd (snd r))"

section \<open>Mail fetch\<close>

text \<open>The mailbox as \<^verbatim>\<open>fetch_emails\<close> uses it through \<^verbatim>\<open>imaplib\<close>: what each command
  raises or returns. A part of a fetched message is \<open>None\<close> when it is not a tuple;
  otherwise it is the normalised message, or the exception raised while the headers
  and the body are read.\<close>

record mailbox =
  mb_connect :: "exn option"
  mb_login :: "string \<Rightarrow> string \<Rightarrow> exn option"
  mb_select :: "exn option"
  mb_search :: "exn + string \<times> string list"
  mb_fetch :: "string \<Rightarrow> exn + string \<times> (exn + email_data) option list"
  mb_store :: "string \<Rightarrow> exn option"
  mb_logout :: "exn option"

definition IMAP_HOST :: string where
  "IMAP_HOST = ''imap.gmail.com''"

text \<open>\<^verbatim>\<open>mail.login(EMAIL_USER, EMAIL_PASS)\<close> with the values of \<^verbatim>\<open>os.getenv\<close>: a missing
  password fails when it is quoted, a missing user gives a command the server
  refuses.\<close>

definition login_result :: "mailbox \<Rightarrow> string option \<Rightarrow> string option \<Rightarrow> exn option" where
  "login_result mb user pass =
     (case pass of
        None \<Rightarrow> Some AttributeError
      | Some p \<Rightarrow> (case user of None \<Rightarrow> Some OtherError | Some u \<Rightarrow> mb_login mb u p))"

text \<open>\<^verbatim>\<open>for response_part in msg_data\<close>: the messages of the tuple parts.\<close>

fun read_parts :: "(exn + email_data) option list \<Rightarrow> exn + email_data list" where
  "read_parts [] = Inr []"
| "read_parts (None # ps) = read_parts ps"
| "read_parts (Some (Inl ex) # ps) = Inl ex"
| "read_parts (Some (Inr e) # ps) =
     (case read_parts ps of Inl ex \<Rightarrow> Inl ex | Inr es \<Rightarrow> Inr (e # es))"

text \<open>\<^verbatim>\<open>for email_id in email_ids\<close>: fetch, read the parts, mark as seen.\<close>

fun fetch_all :: "mailbox \<Rightarrow> string list \<Rightarrow> (exn + email_data list) \<times> effect list" where
  "fetch_all mb [] = (Inr [], [])"
| "fetch_all mb (i # ids) =
     (case mb_fetch mb i of
        Inl ex \<Rightarrow> (Inl ex, [ImapFetch i])
      | Inr (status, parts) \<Rightarrow>
          if status = ''OK'' then
            (case read_parts parts of
               Inl ex \<Rightarrow> (Inl ex, [ImapFetch i])
             | Inr es \<Rightarrow>
                 (case mb_store mb i of
                    Some ex \<Rightarrow> (Inl ex, [ImapFetch i, ImapStore i])
                  | None \<Rightarrow>
                      (case fetch_all mb ids of
                         (Inl ex, t) \<Rightarrow> (Inl ex, [ImapFetch i, ImapStore i] @ t)
                       | (Inr es', t) \<Rightarrow> (Inr (es @ es'), [ImapFetch i, ImapStore i] @ t))))
          else
            (case fetch_all mb ids of (r, t) \<Rightarrow> (r, ImapFetch i # t)))"

text \<open>The body of the \<^verbatim>\<open>try\<close> of \<^verbatim>\<open>fetch_emails\<close>, the same in both programs.\<close>

definition imap_session ::
  "mailbox \<Rightarrow> string option \<Rightarrow> string option \<Rightarrow> (exn + email_data list) \<times> effect list" where
  "imap_session mb user pass =
     (case mb_connect mb of
        Some ex \<Rightarrow> (Inl ex, [Log INFO, ImapConnect IMAP_HOST])
      | None \<Rightarrow>
     (case login_result mb user pass of
        Some ex \<Rightarrow> (Inl ex, [Log INFO, ImapConnect IMAP_HOST, ImapLogin user pass])
      | None \<Rightarrow>
     (case mb_select mb of
        Some ex \<Rightarrow> (Inl ex, [Log INFO, ImapConnect IMAP_HOST, ImapLogin user pass, ImapSelect])
      | None \<Rightarrow>
     (case mb_search mb of
        Inl ex \<Rightarrow> (Inl ex, [Log INFO, ImapConnect IMAP_HOST, ImapLogin user pass, ImapSelect,
                           ImapSearch])
      | Inr (status, ids) \<Rightarrow>
          if status \<noteq> ''OK'' \<or> ids = [] then
            (case mb_logout mb of
               Some ex \<Rightarrow> (Inl ex, [Log INFO, ImapConnect IMAP_HOST, ImapLogin user pass,
                                    ImapSelect, ImapSearch, Log INFO, ImapLogout])
             | None \<Rightarrow> (Inr [], [Log INFO, ImapConnect IMAP_HOST, ImapLogin user pass,
                                  ImapSelect, ImapSearch, Log INFO, ImapLogout]))
          else
            (case fetch_all mb ids of
               (Inl ex, t) \<Rightarrow> (Inl ex, [Log INFO, ImapConnect IMAP_HOST, ImapLogin user pass,
                                        ImapSelect, ImapSearch, Log INFO] @ t)
             | (Inr es, t) \<Rightarrow>
                 (case mb_logout mb of
                    Some ex \<Rightarrow> (Inl ex, [Log INFO, ImapConnect IMAP_HOST, ImapLogin user pass,
                                         ImapSelect, ImapSearch, Log INFO] @ t @ [ImapLogout])
                  | None \<Rightarrow> (Inr es, [Log INFO, ImapConnect IMAP_HOST, ImapLogin user pass,
                                       ImapSelect, ImapSearch, Log INFO] @ t @ [ImapLogout])))))))"

text \<open>\<^verbatim>\<open>except Exception\<close>: log the error and return the empty list.\<close>

definition fetch_guarded ::
  "mailbox \<Rightarrow> string option \<Rightarrow> string option \<Rightarrow> email_data list \<times> effect list" where
  "fetch_guarded mb user pass =
     (case imap_session mb user pass of
        (Inl ex, t) \<Rightarrow> ([], t @ [Log ERROR])
      | (Inr es, t) \<Rightarrow> (es, t))"

text \<open>\<^verbatim>\<open>fetch_emails\<close> of Agendator.py.\<close>

definition fetch_emails_loop ::
  "mailbox \<Rightarrow> string option \<Rightarrow> string option \<Rightarrow> email_data list \<times> effect list" where
  "fetch_emails_loop mb EMAIL_USER EMAIL_PASS = fetch_guarded mb EMAIL_USER EMAIL_PASS"

text \<open>\<^verbatim>\<open>not x\<close> for a value of \<^verbatim>\<open>os.getenv\<close>: unset or empty.\<close>

fun py_not :: "string option \<Rightarrow> bool" where
  "py_not None = True"
| "py_not (Some v) = (v = [])"

text \<open>\<^verbatim>\<open>fetch_emails\<close> of AgendatorActions.py: the credentials are checked first.\<close>

definition fetch_emails_single ::
  "mailbox \<Rightarrow> string option \<Rightarrow> string option \<Rightarrow> email_data list \<times> effect list" where
  "fetch_emails_single mb EMAIL_USER EMAIL_PASS =
     (if py_not EMAIL_USER \<or> py_not EMAIL_PASS then ([], [Log ERROR])
      else fetch_guarded mb EMAIL_USER EMAIL_PASS)"

section \<open>Example inputs\<close>

text \<open>Concrete inputs for the examples: a message, a day, and the envelope of the
  inference service around a text without control characters.\<close>

definition example_email :: email_data where
  "example_email = \<lparr>from_hdr = Some ''ana@example.com'', to_hdr = Some ''bob@example.com'',
     subject = ''Sync'', body = ''Sync on Monday at 10''\<rparr>"

definition example_today :: date where
  "example_today = \<lparr>d_year = 2025, d_month = 3, d_day = 1\<rparr>"

fun json_escape :: "string \<Rightarrow> string" where
  "json_escape [] = []"
| "json_escape (c # cs) =
     (if c = CHR 0x22 \<or> c = CHR 0x5C then CHR 0x5C # c # json_escape cs else c # json_escape cs)"

definition envelope_of :: "string \<Rightarrow> string" where
  \<open>envelope_of t =
     ''{"candidates": [{"content": {"parts": [{"text": "'' @ json_escape t @ ''"}]}}]}''\<close>

definition text_eventos_5 :: string where
  \<open>text_eventos_5 = ''{"eventos": 5}''\<close>


text \<open>Example calendars over a counter of inserted events: one that accepts every event,
  and one that refuses the event whose summary is \<^verbatim>\<open>bad\<close>.\<close>

definition calendar_ok :: "nat calendar_api" where
  "calendar_ok = \<lparr>load_credentials = (\<lambda>s. None),
                  insert_event = (\<lambda>s p. (Inr (Some ''https://calendar.example/e''), Suc s))\<rparr>"

definition calendar_rejecting_bad :: "nat calendar_api" where
  "calendar_rejecting_bad = \<lparr>load_credentials = (\<lambda>s. None),
      insert_event = (\<lambda>s p. if p_summary p = JStr ''bad'' then (Inl OtherError, s)
                              else (Inr (Some ''https://calendar.example/e''), Suc s))\<rparr>"

definition event_of :: "string \<Rightarrow> json \<Rightarrow> json" where
  "event_of summary start = JObj [(''start_datetime'', start), (''summary'', JStr summary)]"

definition example_start :: json where
  "example_start = JStr ''2025-03-01T09:00:00-03:00''"

definition example_batch :: "json list" where
  "example_batch = [event_of ''first'' example_start, event_of ''bad'' example_start,
                    event_of ''third'' example_start]"

definition event_null_start :: json where
  "event_null_start = JObj [(''start_datetime'', JNull), (''summary'', JStr ''X'')]"

text \<open>An example mailbox with one unseen message.\<close>

definition example_mailbox :: mailbox where
  "example_mailbox =
     \<lparr>mb_connect = None, mb_login = (\<lambda>u p. None), mb_select = None,
      mb_search = Inr (''OK'', [''1'']),
      mb_fetch = (\<lambda>i. Inr (''OK'', [Some (Inr example_email), None])),
      mb_store = (\<lambda>i. None), mb_logout = None\<rparr>"


definition text_plain_fence :: string where
  \<open>text_plain_fence = fence @ '' {"eventos": [1]} '' @ fence\<close>

section \<open>Verified properties\<close>

subsection \<open>Prompt Builder\<close>

lemma emit_Inr [simp]: "emit s (Inr t) = Inr (s @ t)"
  by (simp add: emit_def)

lemma emit_emit: "emit a (emit b r) = emit (a @ b) r"
  by (cases r) (simp_all add: emit_def)

lemma py_format_plain:
  "CHR ''{'' \<notin> set s \<Longrightarrow> CHR ''}'' \<notin> set s \<Longrightarrow> py_format (s @ r) kw = emit s (py_format r kw)"
proof (induction s)
  case Nil
  show ?case by (cases "py_format r kw") (simp_all add: emit_def)
next
  case (Cons c s)
  then have "c \<noteq> CHR ''{''" "c \<noteq> CHR ''}''" by auto
  with Cons show ?case by (simp add: emit_emit)
qed

lemma digit_char_code: "(of_char (digit_char n) :: nat) = 48 + n mod 10"
proof -
  have "n mod 10 < 10" by simp
  then have "(48 + n mod 10) mod 256 = 48 + n mod 10" by simp
  then show ?thesis unfolding digit_char_def by (simp only: of_char_of)
qed

lemma digit_char_plain: "digit_char n \<noteq> CHR ''{'' \<and> digit_char n \<noteq> CHR ''}''"
proof -
  have lt: "(of_char (digit_char n) :: nat) < 58"
    using digit_char_code [of n] by simp
  have "digit_char n \<noteq> CHR ''{''"
  proof
    assume "digit_char n = CHR ''{''"
    then have "(of_char (digit_char n) :: nat) = 123" by simp
    with lt show False by simp
  qed
  moreover have "digit_char n \<noteq> CHR ''}''"
  proof
    assume "digit_char n = CHR ''}''"
    then have "(of_char (digit_char n) :: nat) = 125" by simp
    with lt show False by simp
  qed
  ultimately show ?thesis by simp
qed

lemma zero_pad_plain: "CHR ''{'' \<notin> set (zero_pad w n) \<and> CHR ''}'' \<notin> set (zero_pad w n)"
proof (induction w n rule: zero_pad.induct)
  case (1 n)
  show ?case
  proof (cases "n = 0")
    case True
    then show ?thesis by simp
  next
    case False
    with 1 digit_char_plain [of n] show ?thesis by (subst zero_pad.simps, subst zero_pad.simps) auto
  qed
next
  case (2 w n)
  with digit_char_plain [of n] show ?case by auto
qed

lemma strftime_plain:
  "CHR ''{'' \<notin> set (strftime_ymd d)" "CHR ''}'' \<notin> set (strftime_ymd d)"
  using zero_pad_plain by (auto simp: strftime_ymd_def)

lemma template_intro_plain:
  "CHR ''{'' \<notin> set template_intro" "CHR ''}'' \<notin> set template_intro"
  by (simp_all add: template_intro_def)

lemma format_head: "py_format (template_head @ r) kw = emit rendered_head (py_format r kw)"
  unfolding template_head_def rendered_head_def append_assoc
  by (simp add: py_format_plain [OF template_intro_plain] emit_emit)

lemma format_tail:
  "py_format template_tail [(''de'', a), (''para'', b), (''assunto'', c), (''conteudo'', d)] =
   Inr (''. Segue o e-mail:'' @ [CHR 0x0A, CHR 0x0A] @
     ''De: '' @ a @ [CHR 0x0A] @ ''Para: '' @ b @ [CHR 0x0A] @
     ''Assunto: '' @ c @ [CHR 0x0A, CHR 0x0A] @
     ''Conte'' @ [CHR 0xFA] @ ''do:'' @ [CHR 0x0A] @ d)"
  unfolding template_tail_def
  by (simp add: emit_emit)

lemma build_prompt_text: "build_prompt today e = Inr (prompt_text today e)"
  unfolding build_prompt_def GEMINI_PROMPT_TEMPLATE_def prompt_text_def
  by (simp only: format_head py_format_plain [OF strftime_plain] format_tail emit_emit emit_Inr append_assoc)









subsection \<open>Extraction Client\<close>

lemma single_unfold:
  "get_events_from_email_single today reply e =
     retry_loop (Suc (Suc 0)) 0 (prompt_text today e) reply None"
  by (simp add: get_events_from_email_single_def build_prompt_text max_retries_def numeral_2_eq_2)

lemma except_single_request:
  "except_single RequestException attempt raw =
     (if attempt = 0 then (None, [Log WARNING, Sleep 5])
      else (Some (Inr (JArr [])), [Log WARNING, Log ERROR]))"
  by (auto simp: except_single_def max_retries_def)

lemma single_terminal:
  assumes k: "k < max_retries"
    and pre: "\<forall>i<k. fetch_text (reply i) = Inl RequestException"
    and ok: "fetch_text (reply k) = Inr (JStr t)"
    and bad: "json_loads (clean_single_str t) = None"
  shows "fst (get_events_from_email_single today reply e) = Inr (JArr [])"
    and "requests_made (snd (get_events_from_email_single today reply e)) = k + 1"
proof -
  have ts: "try_single (reply k) raw =
      (if clean_single_str t = [] then (Inr (JArr []), [Log INFO, Log WARNING], Some (JStr t))
       else (Inl JSONDecodeError, [Log INFO], Some (JStr t)))" for raw
    using ok bad by (simp add: try_single_def parse_events_def)
  from k have "k = 0 \<or> k = 1" by (auto simp: max_retries_def)
  then show "fst (get_events_from_email_single today reply e) = Inr (JArr [])"
    and "requests_made (snd (get_events_from_email_single today reply e)) = k + 1"
  proof -
    assume "k = 0 \<or> k = 1"
    then have "fst (get_events_from_email_single today reply e) = Inr (JArr []) \<and>
       requests_made (snd (get_events_from_email_single today reply e)) = k + 1"
    proof
      assume "k = 0"
      with ts [of None] show ?thesis
        by (simp add: single_unfold except_single_def requests_made_def)
    next
      assume k1: "k = 1"
      with pre have f0: "fetch_text (reply 0) = Inl RequestException" by simp
      have t0: "try_single (reply 0) None = (Inl RequestException, [], None)"
        using f0 by (simp add: try_single_def)
      from ts [of None] k1 have t1: "try_single (reply (Suc 0)) None =
        (if clean_single_str t = [] then (Inr (JArr []), [Log INFO, Log WARNING], Some (JStr t))
         else (Inl JSONDecodeError, [Log INFO], Some (JStr t)))" by simp
      show ?thesis using k1 t0 t1
        by (simp add: single_unfold except_single_request except_single_def requests_made_def max_retries_def)
    qed
    then show "fst (get_events_from_email_single today reply e) = Inr (JArr [])"
      and "requests_made (snd (get_events_from_email_single today reply e)) = k + 1" by simp_all
  qed
qed

lemma loop_terminal:
  assumes ok: "fetch_text (reply 0) = Inr (JStr t)"
    and bad: "json_loads (clean_loop_str t) = None"
  shows "fst (get_events_from_email_loop today reply e) = Inr (JArr [])"
    and "requests_made (snd (get_events_from_email_loop today reply e)) = 1"
  using ok bad
  by (simp_all add: get_events_from_email_loop_def build_prompt_text parse_events_def
      except_loop_def requests_made_def)

text \<open>Claim C7. When the text left after removing the code fences is not valid JSON,
  the Extraction Client returns the empty list and sends no request after the one that
  produced that text. Agendator.py: the single request. AgendatorActions.py: the
  attempt \<open>k\<close> that produced the text, reached after \<open>k\<close> failed requests, is the last
  one, so \<open>k + 1\<close> requests are sent in all.\<close>

theorem parse_failure_is_terminal:
  "(fetch_text (reply 0) = Inr (JStr t) \<and> json_loads (clean_loop_str t) = None \<longrightarrow>
      fst (get_events_from_email_loop today reply e) = Inr (JArr []) \<and>
      requests_made (snd (get_events_from_email_loop today reply e)) = 1) \<and>
   (k < max_retries \<and> (\<forall>i<k. fetch_text (reply' i) = Inl RequestException) \<and>
    fetch_text (reply' k) = Inr (JStr u) \<and> json_loads (clean_single_str u) = None \<longrightarrow>
      fst (get_events_from_email_single today reply' e) = Inr (JArr []) \<and>
      requests_made (snd (get_events_from_email_single today reply' e)) = k + 1)"
  using loop_terminal [of reply t today e] single_terminal [of k reply' u today e]
  by blast

theorem parse_failure_is_terminal_witness:
  "fst (get_events_from_email_loop example_today (\<lambda>i. Reply 200 (envelope_of ''nope'')) example_email)
     = Inr (JArr []) \<and>
   requests_made (snd (get_events_from_email_loop example_today
     (\<lambda>i. Reply 200 (envelope_of ''nope'')) example_email)) = 1 \<and>
   fst (get_events_from_email_single example_today
     (\<lambda>i. if i = 0 then ConnectionFailed else Reply 200 (envelope_of ''nope'')) example_email)
     = Inr (JArr []) \<and>
   requests_made (snd (get_events_from_email_single example_today
     (\<lambda>i. if i = 0 then ConnectionFailed else Reply 200 (envelope_of ''nope'')) example_email)) = 2"
proof -
  have f: "fetch_text (Reply 200 (envelope_of ''nope'')) = Inr (JStr ''nope'')"
    by code_simp
  have c: "fetch_text ConnectionFailed = Inl RequestException"
    by (simp add: fetch_text_def)
  have l: "json_loads (clean_loop_str ''nope'') = None"
    by code_simp
  have s: "json_loads (clean_single_str ''nope'') = None"
    by code_simp
  have m: "(1::nat) < max_retries"
    by (simp add: max_retries_def)
  show ?thesis
    using parse_failure_is_terminal [of "\<lambda>i. Reply 200 (envelope_of ''nope'')" "''nope''"
        example_today example_email 1
        "\<lambda>i. if i = 0 then ConnectionFailed else Reply 200 (envelope_of ''nope'')" "''nope''"]
      f c l s m
    by simp
qed

lemma json_loads_Nil: "json_loads [] = None"
  by (simp add: json_loads_def skip_ws_def)

lemma single_result:
  assumes k: "k < max_retries"
    and pre: "\<forall>i<k. fetch_text (reply i) = Inl RequestException"
    and ok: "fetch_text (reply k) = Inr (JStr t)"
    and good: "json_loads (clean_single_str t) = Some j"
  shows "fst (get_events_from_email_single today reply e) = py_get j ''eventos'' (JArr [])"
    and "requests_made (snd (get_events_from_email_single today reply e)) = k + 1"
proof -
  from good json_loads_Nil have ne: "clean_single_str t \<noteq> []" by auto
  have ts: "try_single (reply k) raw = (py_get j ''eventos'' (JArr []), [Log INFO], Some (JStr t))" for raw
    using ok good ne by (simp add: try_single_def parse_events_def)
  have pg: "(\<exists>v. py_get j ''eventos'' (JArr []) = Inr v) \<or> py_get j ''eventos'' (JArr []) = Inl AttributeError"
    by (cases j) (auto split: option.splits)
  from k have "k = 0 \<or> k = 1" by (auto simp: max_retries_def)
  then have "fst (get_events_from_email_single today reply e) = py_get j ''eventos'' (JArr []) \<and>
       requests_made (snd (get_events_from_email_single today reply e)) = k + 1"
  proof
    assume "k = 0"
    with ts [of None] pg show ?thesis
      by (auto simp add: single_unfold except_single_def requests_made_def)
  next
    assume k1: "k = 1"
    with pre have f0: "fetch_text (reply 0) = Inl RequestException" by simp
    have t0: "try_single (reply 0) None = (Inl RequestException, [], None)"
      using f0 by (simp add: try_single_def)
    from ts [of None] k1 have t1: "try_single (reply (Suc 0)) None =
        (py_get j ''eventos'' (JArr []), [Log INFO], Some (JStr t))" by simp
    show ?thesis using k1 t0 t1 pg
      by (auto simp add: single_unfold except_single_request except_single_def requests_made_def max_retries_def)
  qed
  then show "fst (get_events_from_email_single today reply e) = py_get j ''eventos'' (JArr [])"
    and "requests_made (snd (get_events_from_email_single today reply e)) = k + 1" by simp_all
qed

lemma loop_result:
  assumes ok: "fetch_text (reply 0) = Inr (JStr t)"
    and good: "json_loads (clean_loop_str t) = Some j"
  shows "fst (get_events_from_email_loop today reply e) = py_get j ''eventos'' (JArr [])"
    and "requests_made (snd (get_events_from_email_loop today reply e)) = 1"
proof -
  from good json_loads_Nil have ne: "clean_loop_str t \<noteq> []" by auto
  have pg: "(\<exists>v. py_get j ''eventos'' (JArr []) = Inr v) \<or> py_get j ''eventos'' (JArr []) = Inl AttributeError"
    by (cases j) (auto split: option.splits)
  with ok good ne show "fst (get_events_from_email_loop today reply e) = py_get j ''eventos'' (JArr [])"
    and "requests_made (snd (get_events_from_email_loop today reply e)) = 1"
    by (auto simp add: get_events_from_email_loop_def build_prompt_text parse_events_def
      except_loop_def requests_made_def)
qed

lemma loop_request_failure:
  assumes "fetch_text (reply 0) = Inl RequestException"
  shows "get_events_from_email_loop today reply e =
           (Inr (JArr []), [Log INFO, Post (prompt_text today e) 20, Log ERROR])"
  using assms by (simp add: get_events_from_email_loop_def build_prompt_text except_loop_def)

lemma single_retries_exhausted:
  assumes "fetch_text (reply 0) = Inl RequestException"
    and "fetch_text (reply 1) = Inl RequestException"
  shows "get_events_from_email_single today reply e =
           (Inr (JArr []),
            [Log INFO, Post (prompt_text today e) 30, Log WARNING, Sleep 5,
             Log INFO, Post (prompt_text today e) 30, Log WARNING, Log ERROR])"
  using assms by (simp add: single_unfold try_single_def except_single_request)

lemma single_second_attempt:
  assumes "fetch_text (reply 0) = Inl RequestException"
    and "fetch_text (reply 1) = Inr (JStr t)"
    and "json_loads (clean_single_str t) = Some j"
  shows "fst (get_events_from_email_single today reply e) = py_get j ''eventos'' (JArr [])"
proof -
  have "(1::nat) < max_retries" by (simp add: max_retries_def)
  moreover have "\<forall>i<(1::nat). fetch_text (reply i) = Inl RequestException"
    using assms(1) by simp
  ultimately show ?thesis
    using single_result(1) [of 1 reply t j today e] assms(2,3) by blast
qed

lemma single_envelope_error:
  assumes "fetch_text (reply 0) = Inl KeyError \<or> fetch_text (reply 0) = Inl IndexError"
  shows "fst (get_events_from_email_single today reply e) = Inl UnboundLocalError"
  using assms by (auto simp add: single_unfold try_single_def except_single_def)

text \<open>Claim C2 (the code raises). A model answer that is valid JSON but not an object:
  the text \<^verbatim>\<open>[]\<close> decodes to a list, \<^verbatim>\<open>event_data.get\<close> raises \<^verbatim>\<open>AttributeError\<close>,
  which no handler of either program catches, so the exception reaches the caller.
  In AgendatorActions.py an envelope without \<^verbatim>\<open>candidates\<close> raises too: the handler
  of \<^verbatim>\<open>KeyError\<close> reads \<^verbatim>\<open>raw_response\<close> before it is bound.\<close>

theorem non_object_answer_raises:
  "fst (get_events_from_email_loop example_today (\<lambda>i. Reply 200 (envelope_of ''[]'')) example_email)
     = Inl AttributeError \<and>
   fst (get_events_from_email_single example_today (\<lambda>i. Reply 200 (envelope_of ''[]'')) example_email)
     = Inl AttributeError \<and>
   fst (get_events_from_email_single example_today (\<lambda>i. Reply 200 ''{}'') example_email)
     = Inl UnboundLocalError"
proof -
  have f: "fetch_text (Reply 200 (envelope_of ''[]'')) = Inr (JStr ''[]'')"
    by code_simp
  have l: "json_loads (clean_loop_str ''[]'') = Some (JArr [])"
    by code_simp
  have s: "json_loads (clean_single_str ''[]'') = Some (JArr [])"
    by code_simp
  have k: "fetch_text (Reply 200 ''{}'') = Inl KeyError"
    by code_simp
  have m: "(0::nat) < max_retries"
    by (simp add: max_retries_def)
  have "fst (get_events_from_email_loop example_today (\<lambda>i. Reply 200 (envelope_of ''[]'')) example_email)
     = py_get (JArr []) ''eventos'' (JArr [])"
    using loop_result(1) [of "\<lambda>i. Reply 200 (envelope_of ''[]'')" "''[]''" "JArr []"] f l by simp
  moreover have "fst (get_events_from_email_single example_today (\<lambda>i. Reply 200 (envelope_of ''[]'')) example_email)
     = py_get (JArr []) ''eventos'' (JArr [])"
    using single_result(1) [of 0 "\<lambda>i. Reply 200 (envelope_of ''[]'')" "''[]''" "JArr []"] f s m by simp
  moreover have "fst (get_events_from_email_single example_today (\<lambda>i. Reply 200 ''{}'') example_email)
     = Inl UnboundLocalError"
    using single_envelope_error [of "\<lambda>i. Reply 200 ''{}''"] k by simp
  ultimately show ?thesis by simp
qed

text \<open>Claim C4 as stated fails: the value at \<^verbatim>\<open>eventos\<close> is returned even when it is not
  a list. For the answer \<^verbatim>\<open>{"eventos": 5}\<close> both programs return the number 5.\<close>

theorem eventos_not_list_counterexample:
  "fst (get_events_from_email_loop example_today (\<lambda>i. Reply 200 (envelope_of text_eventos_5)) example_email)
     = Inr (JInt 5) \<and>
   fst (get_events_from_email_single example_today (\<lambda>i. Reply 200 (envelope_of text_eventos_5)) example_email)
     = Inr (JInt 5) \<and>
   fst (get_events_from_email_single example_today (\<lambda>i. Reply 200 (envelope_of text_eventos_5)) example_email)
     \<noteq> Inr (JArr [])"
proof -
  have f: "fetch_text (Reply 200 (envelope_of text_eventos_5)) = Inr (JStr text_eventos_5)"
    by code_simp
  have l: "json_loads (clean_loop_str text_eventos_5) = Some (JObj [(''eventos'', JInt 5)])"
    by code_simp
  have s: "json_loads (clean_single_str text_eventos_5) = Some (JObj [(''eventos'', JInt 5)])"
    by code_simp
  have m: "(0::nat) < max_retries"
    by (simp add: max_retries_def)
  have "fst (get_events_from_email_loop example_today (\<lambda>i. Reply 200 (envelope_of text_eventos_5)) example_email)
     = py_get (JObj [(''eventos'', JInt 5)]) ''eventos'' (JArr [])"
    using loop_result(1) [of "\<lambda>i. Reply 200 (envelope_of text_eventos_5)" text_eventos_5] f l by simp
  moreover have "fst (get_events_from_email_single example_today (\<lambda>i. Reply 200 (envelope_of text_eventos_5)) example_email)
     = py_get (JObj [(''eventos'', JInt 5)]) ''eventos'' (JArr [])"
    using single_result(1) [of 0 "\<lambda>i. Reply 200 (envelope_of text_eventos_5)" text_eventos_5] f s m by simp
  ultimately show ?thesis by simp
qed

text \<open>Claim C4, amended. When the cleaned text decodes to an object, the Extraction
  Client returns the value at the key \<^verbatim>\<open>eventos\<close> whenever the key is present, whatever
  the type of the value, and the empty list when the key is absent.\<close>

theorem eventos_value_returned:
  "(fetch_text (reply 0) = Inr (JStr t) \<and> json_loads (clean_loop_str t) = Some (JObj kvs) \<longrightarrow>
      fst (get_events_from_email_loop today reply e) =
        Inr (case map_of kvs ''eventos'' of None \<Rightarrow> JArr [] | Some v \<Rightarrow> v)) \<and>
   (k < max_retries \<and> (\<forall>i<k. fetch_text (reply' i) = Inl RequestException) \<and>
    fetch_text (reply' k) = Inr (JStr u) \<and> json_loads (clean_single_str u) = Some (JObj kvs') \<longrightarrow>
      fst (get_events_from_email_single today reply' e) =
        Inr (case map_of kvs' ''eventos'' of None \<Rightarrow> JArr [] | Some v \<Rightarrow> v))"
proof -
  have g: "py_get (JObj m) ''eventos'' (JArr []) =
      Inr (case map_of m ''eventos'' of None \<Rightarrow> JArr [] | Some v \<Rightarrow> v)" for m
    by (simp split: option.splits)
  show ?thesis
    using loop_result(1) [of reply t "JObj kvs" today e]
      single_result(1) [of k reply' u "JObj kvs'" today e] g
    by auto
qed

theorem eventos_value_returned_witness:
  "fst (get_events_from_email_loop example_today (\<lambda>i. Reply 200 (envelope_of ''{}'')) example_email)
     = Inr (JArr []) \<and>
   fst (get_events_from_email_single example_today
     (\<lambda>i. if i = 0 then Reply 503 [] else Reply 200 (envelope_of text_eventos_5)) example_email)
     = Inr (JInt 5)"
proof -
  have f: "fetch_text (Reply 200 (envelope_of ''{}'')) = Inr (JStr ''{}'')"
    by code_simp
  have l: "json_loads (clean_loop_str ''{}'') = Some (JObj [])"
    by code_simp
  have c: "fetch_text (Reply 503 []) = Inl RequestException"
    by code_simp
  have f': "fetch_text (Reply 200 (envelope_of text_eventos_5)) = Inr (JStr text_eventos_5)"
    by code_simp
  have s: "json_loads (clean_single_str text_eventos_5) = Some (JObj [(''eventos'', JInt 5)])"
    by code_simp
  have m: "(1::nat) < max_retries"
    by (simp add: max_retries_def)
  show ?thesis
    using eventos_value_returned [of "\<lambda>i. Reply 200 (envelope_of ''{}'')" "''{}''" "[]"
        example_today example_email 1
        "\<lambda>i. if i = 0 then Reply 503 [] else Reply 200 (envelope_of text_eventos_5)"
        text_eventos_5 "[(''eventos'', JInt 5)]"]
      f l c f' s m
    by simp
qed

text \<open>Claim C6 (the code of Agendator.py falls short). With a service whose every
  request fails in transport, the continuous loop sends one request with no sleep and
  no second attempt, and returns the empty list; AgendatorActions.py on the same
  service sends two requests with a sleep of 5 between them, as the claim says.\<close>

theorem loop_variant_never_retries:
  "get_events_from_email_loop example_today (\<lambda>i. ConnectionFailed) example_email =
     (Inr (JArr []), [Log INFO, Post (prompt_text example_today example_email) 20, Log ERROR]) \<and>
   requests_made (snd (get_events_from_email_loop example_today (\<lambda>i. ConnectionFailed) example_email)) = 1 \<and>
   get_events_from_email_single example_today (\<lambda>i. ConnectionFailed) example_email =
     (Inr (JArr []),
      [Log INFO, Post (prompt_text example_today example_email) 30, Log WARNING, Sleep 5,
       Log INFO, Post (prompt_text example_today example_email) 30, Log WARNING, Log ERROR])"
proof -
  have c: "fetch_text ConnectionFailed = Inl RequestException"
    by (simp add: fetch_text_def)
  show ?thesis
    using loop_request_failure [of "\<lambda>i. ConnectionFailed" example_today example_email]
      single_retries_exhausted [of "\<lambda>i. ConnectionFailed" example_today example_email] c
    by (simp add: requests_made_def)
qed

subsection \<open>The two cleaning steps\<close>










text \<open>Neither cleaning step covers the other: around a fence without the word
  \<^verbatim>\<open>json\<close> the continuous loop finds the events and the single run finds none.\<close>

lemma cleaning_variants_differ_plain_fence:
  "fst (get_events_from_email_loop example_today
          (\<lambda>i. Reply 200 (envelope_of text_plain_fence)) example_email)
     = Inr (JArr [JInt 1]) \<and>
   fst (get_events_from_email_single example_today
          (\<lambda>i. Reply 200 (envelope_of text_plain_fence)) example_email)
     = Inr (JArr [])"
proof -
  have f: "fetch_text (Reply 200 (envelope_of text_plain_fence)) = Inr (JStr text_plain_fence)"
    by code_simp
  have l: "json_loads (clean_loop_str text_plain_fence) = Some (JObj [(''eventos'', JArr [JInt 1])])"
    by code_simp
  have s: "json_loads (clean_single_str text_plain_fence) = None"
    by code_simp
  have m: "(0::nat) < max_retries"
    by (simp add: max_retries_def)
  have "fst (get_events_from_email_loop example_today
          (\<lambda>i. Reply 200 (envelope_of text_plain_fence)) example_email)
     = py_get (JObj [(''eventos'', JArr [JInt 1])]) ''eventos'' (JArr [])"
    using loop_result(1) [of "\<lambda>i. Reply 200 (envelope_of text_plain_fence)" text_plain_fence] f l
    by simp
  moreover have "fst (get_events_from_email_single example_today
          (\<lambda>i. Reply 200 (envelope_of text_plain_fence)) example_email) = Inr (JArr [])"
    using single_terminal(1) [of 0 "\<lambda>i. Reply 200 (envelope_of text_plain_fence)" text_plain_fence] f s m
    by simp
  ultimately show ?thesis by simp
qed



subsection \<open>Event Validator and Event Materializer\<close>

lemma create_error_count:
  "length (filter ((=) (Log ERROR)) (fst (snd (create_calendar_event build api s ev)))) =
     (if fst (create_calendar_event build api s ev) then 0 else 1)"
  by (auto simp: create_calendar_event_def split: sum.splits option.splits prod.splits)

lemma process_valid_batch:
  assumes "list_all (\<lambda>ev. validate ev = Inr True) evs"
  shows "raised (process_events (create_calendar_event build api) s evs) = None \<and>
         map fst (calls (process_events (create_calendar_event build api) s evs)) = evs \<and>
         length (filter ((=) (Log ERROR)) (trace (process_events (create_calendar_event build api) s evs))) =
         length (filter (\<lambda>c. \<not> snd c) (calls (process_events (create_calendar_event build api) s evs)))"
  using assms
proof (induction evs arbitrary: s)
  case Nil
  show ?case by (simp add: raised_def calls_def trace_def)
next
  case (Cons ev evs)
  then have v: "validate ev = Inr True" and rest: "list_all (\<lambda>ev. validate ev = Inr True) evs"
    by simp_all
  obtain b t s' where c: "create_calendar_event build api s ev = (b, t, s')"
    by (cases "create_calendar_event build api s ev") auto
  obtain r cs t' s'' where p: "process_events (create_calendar_event build api) s' evs = (r, cs, t', s'')"
    by (cases "process_events (create_calendar_event build api) s' evs") auto
  from Cons.IH [OF rest, of s'] p
  have ih: "r = None" "map fst cs = evs"
    "length (filter ((=) (Log ERROR)) t') = length (filter (\<lambda>c. \<not> snd c) cs)"
    by (simp_all add: raised_def calls_def trace_def)
  from create_error_count [of build api s ev] c
  have e: "length (filter ((=) (Log ERROR)) t) = (if b then 0 else 1)" by simp
  show ?case using v c p ih e
    by (simp add: raised_def calls_def trace_def)
qed

lemma handle_events_list: "handle_events create s (JArr evs) = process_events create s evs"
  by (cases evs) (simp_all add: handle_events_def)

lemma validate_dict:
  "validate (JObj kvs) = Inr (''start_datetime'' \<in> fst ` set kvs \<and> ''summary'' \<in> fst ` set kvs)"
  by (simp add: validate_def)

text \<open>The event of AgendatorActions.py ends one hour after it starts, with the same
  offset, whenever the start is accepted and the hour can be added.\<close>

lemma days_before_month_Suc:
  "1 \<le> m \<Longrightarrow> days_before_month y (Suc m) = days_before_month y m + days_in_month y m"
  by (simp add: days_before_month_def)

lemma days_before_december: "days_before_month y 12 = (if is_leap y then 335 else 334)"
proof -
  have "[1 ..< 12] = [1, 2, 3, 4, 5, 6, 7, 8, 9, 10, 11::nat]"
    by (simp add: upt_rec)
  then show ?thesis
    by (simp add: days_before_month_def days_in_month_def)
qed

lemma days_before_year_nat:
  "days_before_year (Suc n) = 365 * int n + int (n div 4) - int (n div 100) + int (n div 400)"
  by (simp add: days_before_year_def zdiv_int)

lemma mod_chain:
  fixes y :: nat
  shows "y mod 400 = 0 \<Longrightarrow> y mod 100 = 0" and "y mod 100 = 0 \<Longrightarrow> y mod 4 = 0"
proof -
  have a: "(100::nat) dvd 400" and b: "(4::nat) dvd 100" by simp_all
  show "y mod 400 = 0 \<Longrightarrow> y mod 100 = 0"
    using a by (meson dvd_trans mod_eq_0_iff_dvd)
  show "y mod 100 = 0 \<Longrightarrow> y mod 4 = 0"
    using b by (meson dvd_trans mod_eq_0_iff_dvd)
qed

lemma days_before_year_Suc:
  assumes "1 \<le> y"
  shows "days_before_year (Suc y) = days_before_year y + (if is_leap y then 366 else 365)"
proof -
  from assms obtain n where y: "y = Suc n" by (cases y) auto
  have d4: "int (Suc n div 4) = int (n div 4) + (if Suc n mod 4 = 0 then 1 else 0)"
    by (simp add: div_Suc)
  have d100: "int (Suc n div 100) = int (n div 100) + (if Suc n mod 100 = 0 then 1 else 0)"
    by (simp add: div_Suc)
  have d400: "int (Suc n div 400) = int (n div 400) + (if Suc n mod 400 = 0 then 1 else 0)"
    by (simp add: div_Suc)
  show ?thesis
    unfolding y days_before_year_nat d4 d100 d400 is_leap_def
    using mod_chain [of "Suc n"] by (auto split: if_splits)
qed

lemma add_one_hour_instant:
  assumes v: "valid_datetime t" and a: "add_one_hour t = Inr t'"
  shows "utc_seconds t' = utc_seconds t + 3600 \<and> dt_offset t' = dt_offset t"
proof -
  consider (h) "dt_hour t < 23"
    | (d) "\<not> dt_hour t < 23" "dt_day t < days_in_month (dt_year t) (dt_month t)"
    | (m) "\<not> dt_hour t < 23" "\<not> dt_day t < days_in_month (dt_year t) (dt_month t)" "dt_month t < 12"
    | (y) "\<not> dt_hour t < 23" "\<not> dt_day t < days_in_month (dt_year t) (dt_month t)"
          "\<not> dt_month t < 12" "dt_year t < 9999"
    | (o) "\<not> dt_hour t < 23" "\<not> dt_day t < days_in_month (dt_year t) (dt_month t)"
          "\<not> dt_month t < 12" "\<not> dt_year t < 9999"
    by blast
  then show ?thesis
  proof cases
    case h
    with a have "t' = t\<lparr>dt_hour := dt_hour t + 1\<rparr>" by (simp add: add_one_hour_def)
    then show ?thesis by (simp add: utc_seconds_def)
  next
    case d
    with a have t': "t' = t\<lparr>dt_hour := 0, dt_day := dt_day t + 1\<rparr>" by (simp add: add_one_hour_def)
    from d v have "dt_hour t = 23" by (simp add: valid_datetime_def)
    with t' show ?thesis by (simp add: utc_seconds_def)
  next
    case m
    with a have t': "t' = t\<lparr>dt_hour := 0, dt_day := 1, dt_month := dt_month t + 1\<rparr>"
      by (simp add: add_one_hour_def)
    from m v have hh: "dt_hour t = 23" and dd: "dt_day t = days_in_month (dt_year t) (dt_month t)"
      and mm: "1 \<le> dt_month t"
      by (simp_all add: valid_datetime_def)
    from days_before_month_Suc [OF mm, of "dt_year t"] t' hh dd show ?thesis
      by (simp add: utc_seconds_def)
  next
    case y
    with a have t': "t' = t\<lparr>dt_hour := 0, dt_day := 1, dt_month := 1, dt_year := dt_year t + 1\<rparr>"
      by (simp add: add_one_hour_def)
    from y v have hh: "dt_hour t = 23" and mm: "dt_month t = 12" and yy: "1 \<le> dt_year t"
      by (simp_all add: valid_datetime_def)
    from y v mm have dd: "dt_day t = 31" by (simp add: valid_datetime_def days_in_month_def)
    have z: "days_before_month (Suc (dt_year t)) 1 = 0" by (simp add: days_before_month_def)
    from days_before_year_Suc [OF yy] days_before_december [of "dt_year t"] t' hh mm dd z
    show ?thesis by (simp add: utc_seconds_def split: if_splits)
  next
    case o
    with a show ?thesis by (simp add: add_one_hour_def)
  qed
qed

lemma parse_date_range:
  "parse_date s = Some (y, m, d) \<Longrightarrow> 1 \<le> y \<and> 1 \<le> m \<and> m \<le> 12 \<and> 1 \<le> d \<and> d \<le> days_in_month y m"
  by (simp add: parse_date_def split: if_splits option.splits)

lemma fromisoformat_fields:
  assumes "fromisoformat s = Inr t"
  shows "parse_date (take 10 s) = Some (dt_year t, dt_month t, dt_day t) \<and>
         dt_hour t \<le> 23 \<and> dt_minute t \<le> 59 \<and> dt_second t \<le> 59"
  using assms
  by (auto simp: fromisoformat_def split: option.splits if_splits list.splits)

lemma fromisoformat_valid: "fromisoformat s = Inr t \<Longrightarrow> valid_datetime t"
  using fromisoformat_fields [of s t] parse_date_range [of "take 10 s" "dt_year t" "dt_month t" "dt_day t"]
  by (simp add: valid_datetime_def)

lemma fromisoformat_value_str:
  "fromisoformat_value v = Inr t \<Longrightarrow> \<exists>s. v = JStr s \<and> fromisoformat s = Inr t"
  by (cases v) simp_all

lemma single_end_one_hour_later:
  assumes "build_event_single ev = Inr p"
  shows "\<exists>s t t'. p_start_dateTime p = JStr s \<and> fromisoformat s = Inr t \<and>
           add_one_hour t = Inr t' \<and> p_end_dateTime p = JStr (isoformat t') \<and>
           utc_seconds t' = utc_seconds t + 3600 \<and> dt_offset t' = dt_offset t"
proof -
  from assms obtain v t t' where
    v: "subscript_key ev ''start_datetime'' = Inr v" and
    t: "fromisoformat_value v = Inr t" and
    t': "add_one_hour t = Inr t'" and
    ps: "p_start_dateTime p = v" and
    pe: "p_end_dateTime p = JStr (isoformat t')"
    by (auto simp: build_event_single_def split: sum.splits)
  from fromisoformat_value_str [OF t] obtain s where s: "v = JStr s" "fromisoformat s = Inr t"
    by blast
  from add_one_hour_instant [OF fromisoformat_valid [OF s(2)] t']
  show ?thesis using s ps pe t' by blast
qed

lemma single_last_hour_of_9999:
  "build_event_single (event_of ''Sync'' (JStr ''9999-12-31T23:30:00-03:00'')) = Inl OverflowError"
  by code_simp

text \<open>Claim C1 (the code of Agendator.py falls short). For the start
  \<^verbatim>\<open>2025-03-01T09:00:00-03:00\<close> the event that Agendator.py submits ends at the very
  same string \<^verbatim>\<open>2025-03-01T09:00:00-03:00\<close>; AgendatorActions.py submits the end
  \<^verbatim>\<open>2025-03-01T10:00:00-03:00\<close>, one hour later with the same offset.\<close>

theorem loop_variant_end_equals_start:
  "build_event_loop (event_of ''Sync'' example_start) =
     Inr \<lparr>p_summary = JStr ''Sync'', p_location = ''Remoto'', p_description = JStr ''Sync'',
          p_start_dateTime = JStr ''2025-03-01T09:00:00-03:00'', p_start_timeZone = ''America/Sao_Paulo'',
          p_end_dateTime = JStr ''2025-03-01T09:00:00-03:00'', p_end_timeZone = ''America/Sao_Paulo''\<rparr> \<and>
   fst (snd (create_calendar_event_loop calendar_ok 0 (event_of ''Sync'' example_start))) =
     [Log INFO, LoadCredentials,
      CalendarInsert
        \<lparr>p_summary = JStr ''Sync'', p_location = ''Remoto'', p_description = JStr ''Sync'',
         p_start_dateTime = JStr ''2025-03-01T09:00:00-03:00'', p_start_timeZone = ''America/Sao_Paulo'',
         p_end_dateTime = JStr ''2025-03-01T09:00:00-03:00'', p_end_timeZone = ''America/Sao_Paulo''\<rparr>,
      Log INFO] \<and>
   build_event_single (event_of ''Sync'' example_start) =
     Inr \<lparr>p_summary = JStr ''Sync'', p_location = ''Remoto'', p_description = JStr ''Sync'',
          p_start_dateTime = JStr ''2025-03-01T09:00:00-03:00'', p_start_timeZone = ''America/Sao_Paulo'',
          p_end_dateTime = JStr ''2025-03-01T10:00:00-03:00'', p_end_timeZone = ''America/Sao_Paulo''\<rparr>"
  by code_simp

text \<open>Claim C3 as stated fails. A candidate whose \<^verbatim>\<open>start_datetime\<close> is \<^verbatim>\<open>null\<close> passes the
  test of both programs and is handed to \<^verbatim>\<open>create_calendar_event\<close>; no warning is
  logged for it. Agendator.py then inserts an event whose start and end are
  \<^verbatim>\<open>null\<close>; AgendatorActions.py fails inside the call, where \<^verbatim>\<open>fromisoformat\<close> refuses
  the value.\<close>

theorem null_start_is_accepted:
  "validate event_null_start = Inr True \<and>
   calls (handle_events (create_calendar_event_loop calendar_ok) 0 (JArr [event_null_start])) =
     [(event_null_start, True)] \<and>
   calls (handle_events (create_calendar_event_single calendar_ok) 0 (JArr [event_null_start])) =
     [(event_null_start, False)] \<and>
   Log WARNING \<notin> set (trace (handle_events (create_calendar_event_loop calendar_ok) 0
                                 (JArr [event_null_start]))) \<and>
   Log WARNING \<notin> set (trace (handle_events (create_calendar_event_single calendar_ok) 0
                                 (JArr [event_null_start])))"
  by code_simp

text \<open>Claim C3, amended. For every raw candidate mapping, the Event Validator accepts it
  exactly when it contains both the key \<^verbatim>\<open>start_datetime\<close> and the key \<^verbatim>\<open>summary\<close>,
  whatever their values, \<^verbatim>\<open>null\<close> included: an accepted candidate is handed to the
  Materializer, any other one is discarded with one warning.\<close>

theorem validator_tests_key_presence:
  "validate (JObj kvs) =
     Inr (''start_datetime'' \<in> fst ` set kvs \<and> ''summary'' \<in> fst ` set kvs) \<and>
   calls (handle_events create s (JArr [JObj kvs])) =
     (if ''start_datetime'' \<in> fst ` set kvs \<and> ''summary'' \<in> fst ` set kvs
      then [(JObj kvs, fst (create s (JObj kvs)))] else []) \<and>
   trace (handle_events create s (JArr [JObj kvs])) =
     (if ''start_datetime'' \<in> fst ` set kvs \<and> ''summary'' \<in> fst ` set kvs
      then fst (snd (create s (JObj kvs))) else [Log WARNING])"
  by (cases "create s (JObj kvs)")
     (simp add: validate_dict handle_events_list calls_def trace_def)

theorem validator_tests_key_presence_witness:
  "validate (JObj [(''summary'', JStr ''X'')]) = Inr False \<and>
   calls (handle_events (create_calendar_event_single calendar_ok) 0
            (JArr [JObj [(''summary'', JStr ''X'')]])) = [] \<and>
   trace (handle_events (create_calendar_event_single calendar_ok) 0
            (JArr [JObj [(''summary'', JStr ''X'')]])) = [Log WARNING]"
  using validator_tests_key_presence
          [of "[(''summary'', JStr ''X'')]" "create_calendar_event_single calendar_ok" 0]
  by simp

text \<open>Claim C9. In a batch of events that pass the validator, every event is handed to
  \<^verbatim>\<open>create_calendar_event\<close>, in order, whatever the calendar binding does for the
  others: nothing is raised out of the loop, and each failed call logs its one error
  and is reported as \<^verbatim>\<open>False\<close> for that event alone. It holds for the event dictionary
  of either program and for every calendar.\<close>

theorem failure_is_per_event:
  "list_all (\<lambda>ev. validate ev = Inr True) evs \<Longrightarrow>
     raised (handle_events (create_calendar_event build api) s (JArr evs)) = None \<and>
     map fst (calls (handle_events (create_calendar_event build api) s (JArr evs))) = evs \<and>
     length (filter ((=) (Log ERROR))
        (trace (handle_events (create_calendar_event build api) s (JArr evs)))) =
     length (filter (\<lambda>c. \<not> snd c)
        (calls (handle_events (create_calendar_event build api) s (JArr evs))))"
  using process_valid_batch [of evs build api s] by (simp add: handle_events_list)

theorem failure_is_per_event_witness:
  "list_all (\<lambda>ev. validate ev = Inr True) example_batch \<and>
   raised (handle_events (create_calendar_event_single calendar_rejecting_bad) 0 (JArr example_batch)) = None \<and>
   calls (handle_events (create_calendar_event_single calendar_rejecting_bad) 0 (JArr example_batch)) =
     [(event_of ''first'' example_start, True), (event_of ''bad'' example_start, False),
      (event_of ''third'' example_start, True)] \<and>
   length (filter ((=) (Log ERROR))
     (trace (handle_events (create_calendar_event_single calendar_rejecting_bad) 0 (JArr example_batch)))) = 1"
proof -
  have v: "list_all (\<lambda>ev. validate ev = Inr True) example_batch"
    by code_simp
  have c: "calls (handle_events (create_calendar_event_single calendar_rejecting_bad) 0 (JArr example_batch)) =
     [(event_of ''first'' example_start, True), (event_of ''bad'' example_start, False),
      (event_of ''third'' example_start, True)]"
    by code_simp
  show ?thesis
    using failure_is_per_event [OF v, of build_event_single calendar_rejecting_bad 0] v c
    by (simp add: create_calendar_event_single_def)
qed

subsection \<open>Mail fetch\<close>

lemma single_guard:
  "py_not user \<or> py_not pass \<Longrightarrow> fetch_emails_single mb user pass = ([], [Log ERROR])"
  by (simp add: fetch_emails_single_def)

text \<open>Claim C8 (the code of Agendator.py falls short). With neither credential set,
  \<^verbatim>\<open>fetch_emails\<close> of Agendator.py opens the connection to the mail server and tries
  to log in before it gives up with no messages; \<^verbatim>\<open>fetch_emails\<close> of
  AgendatorActions.py returns at once and sends nothing to the mailbox.\<close>

theorem loop_variant_connects_without_credentials:
  "fetch_emails_loop example_mailbox None None =
     ([], [Log INFO, ImapConnect ''imap.gmail.com'', ImapLogin None None, Log ERROR]) \<and>
   fetch_emails_single example_mailbox None None = ([], [Log ERROR])"
  by code_simp

end
